theory Spec2Isabelle
  imports Main "HOL-Library.AList"
begin

section \<open>Python values\<close>

text \<open>
  Python strings are modelled as \<^typ>\<open>string\<close>; a character stands for a code point below 256.
  \<open>x or d\<close> on an optional string yields \<open>d\<close> when \<open>x\<close> is \<open>None\<close> or empty.
\<close>

definition py_or :: "string option \<Rightarrow> string \<Rightarrow> string" where
  "py_or x d = (case x of None \<Rightarrow> d | Some s \<Rightarrow> if s = [] then d else s)"

definition py_or_opt :: "string option \<Rightarrow> string option \<Rightarrow> string option" where
  "py_or_opt x y = (case x of None \<Rightarrow> y | Some s \<Rightarrow> if s = [] then y else Some s)"

definition lower_char :: "char \<Rightarrow> char" where
  "lower_char c = (let n = (of_char c :: nat) in
     if (65 \<le> n \<and> n \<le> 90) \<or> (192 \<le> n \<and> n \<le> 222 \<and> n \<noteq> 215)
     then char_of (n + 32) else c)"

definition py_lower :: "string \<Rightarrow> string" where
  "py_lower s = map lower_char s"

definition is_space :: "char \<Rightarrow> bool" where
  "is_space c = (let n = (of_char c :: nat) in
     (9 \<le> n \<and> n \<le> 13) \<or> (28 \<le> n \<and> n \<le> 32) \<or> n = 133 \<or> n = 160)"

definition py_strip :: "string \<Rightarrow> string" where
  "py_strip s = rev (dropWhile is_space (rev (dropWhile is_space s)))"

fun split_ws :: "string \<Rightarrow> string \<Rightarrow> string list" where
  "split_ws cur [] = (if cur = [] then [] else [cur])"
| "split_ws cur (c # cs) =
     (if is_space c then (if cur = [] then split_ws [] cs else cur # split_ws [] cs)
      else split_ws (cur @ [c]) cs)"

definition py_split :: "string \<Rightarrow> string list" where
  "py_split s = split_ws [] s"

definition starts_with :: "string \<Rightarrow> string \<Rightarrow> bool" where
  "starts_with p s = (take (length p) s = p)"

text \<open>\<open>split_once sep s\<close> is \<open>s.split(sep, 1)\<close> when \<open>sep in s\<close>, and \<open>None\<close> otherwise.\<close>

fun split_once :: "string \<Rightarrow> string \<Rightarrow> (string \<times> string) option" where
  "split_once sep [] = (if sep = [] then Some ([], []) else None)"
| "split_once sep (c # cs) =
     (if starts_with sep (c # cs) then Some ([], drop (length sep) (c # cs))
      else (case split_once sep cs of None \<Rightarrow> None | Some (a, b) \<Rightarrow> Some (c # a, b)))"

definition contains_str :: "string \<Rightarrow> string \<Rightarrow> bool" where
  "contains_str sep s = (split_once sep s \<noteq> None)"

subsection \<open>TOML documents as parsed by tomllib\<close>

datatype toml =
    TStr string
  | TInt int
  | TBool bool
  | TOther string
  | TArray "toml list"
  | TTable "(string \<times> toml) list"

type_synonym document = "(string \<times> toml) list"

datatype exn =
    FileNotFoundError
  | TOMLDecodeError
  | TypeError
  | KeyError
  | OSError
  | UnicodeDecodeError
  | CalledProcessError int string
  | ReleaseWithCogError exn

text \<open>\<open>k in v\<close>: key membership for a table, substring test for a string, element
  membership for an array; any other value is not iterable.\<close>

definition py_contains :: "string \<Rightarrow> toml \<Rightarrow> exn + bool" where
  "py_contains k v = (case v of
       TTable kvs \<Rightarrow> Inr (k \<in> set (map fst kvs))
     | TStr s \<Rightarrow> Inr (contains_str k s)
     | TArray xs \<Rightarrow> Inr (TStr k \<in> set xs)
     | _ \<Rightarrow> Inl TypeError)"

text \<open>\<open>d[k] = v\<close>: a dict replaces the value in place or appends the key; a string,
  an array (with a string index) or a scalar raise \<open>TypeError\<close>.\<close>

definition py_setitem :: "toml \<Rightarrow> string \<Rightarrow> toml \<Rightarrow> exn + toml" where
  "py_setitem d k v = (case d of
       TTable kvs \<Rightarrow> Inr (TTable (AList.update k v kvs))
     | _ \<Rightarrow> Inl TypeError)"

subsection \<open>JSON encoding (json.dumps with its defaults)\<close>

datatype json = JNull | JStr string | JInt int | JObj "(string \<times> json) list"

fun show_nat :: "nat \<Rightarrow> string" where
  "show_nat n = (if n < 10 then [''0123456789'' ! n]
     else show_nat (n div 10) @ [''0123456789'' ! (n mod 10)])"

definition show_int :: "int \<Rightarrow> string" where
  "show_int i = (if i < 0 then CHR ''-'' # show_nat (nat (- i)) else show_nat (nat i))"

definition hex_digit :: "nat \<Rightarrow> char" where
  "hex_digit n = ''0123456789abcdef'' ! (n mod 16)"

definition json_escape_char :: "char \<Rightarrow> string" where
  "json_escape_char c = (let n = (of_char c :: nat) in
     if n = 34 then [CHR 0x5C, CHR 0x22]
     else if n = 92 then [CHR 0x5C, CHR 0x5C]
     else if n = 10 then [CHR 0x5C, CHR ''n'']
     else if n = 13 then [CHR 0x5C, CHR ''r'']
     else if n = 9 then [CHR 0x5C, CHR ''t'']
     else if n = 8 then [CHR 0x5C, CHR ''b'']
     else if n = 12 then [CHR 0x5C, CHR ''f'']
     else if 32 \<le> n \<and> n \<le> 126 then [c]
     else [CHR 0x5C, CHR ''u'', CHR ''0'', CHR ''0'', hex_digit (n div 16), hex_digit n])"

definition json_string :: "string \<Rightarrow> string" where
  "json_string s = CHR 0x22 # concat (map json_escape_char s) @ [CHR 0x22]"

fun join_with :: "string \<Rightarrow> string list \<Rightarrow> string" where
  "join_with sep [] = []"
| "join_with sep [x] = x"
| "join_with sep (x # y # ys) = x @ sep @ join_with sep (y # ys)"

fun json_dumps :: "json \<Rightarrow> string" where
  "json_dumps JNull = ''null''"
| "json_dumps (JStr s) = json_string s"
| "json_dumps (JInt i) = show_int i"
| "json_dumps (JObj kvs) =
     ''{'' @ join_with '', '' (map (\<lambda>kv. json_string (fst kv) @ '': '' @ json_dumps (snd kv)) kvs) @ ''}''"

section \<open>setup_cog_config.py\<close>

text \<open>
  The TOML reader and writer are external libraries: \<open>toml_load\<close> is \<open>tomllib.load\<close>
  (\<open>None\<close> when it raises \<open>TOMLDecodeError\<close>), \<open>toml_dump\<close> is \<open>tomli_w.dump\<close>.  File
  contents are of an arbitrary type \<open>'b\<close>.  The remaining fields are the other
  collaborators of the orchestrator: Python's rendering of a non-string value in an
  f-string, the decoding of the bytes a child process wrote (\<open>None\<close> when they do not
  decode in the locale's encoding), the operating system starting a child process, and
  the forge's REST client.  A child process that ran is described by its exit status and
  the bytes it wrote to standard output and standard error.
  External answers may depend on the number of external interactions made before.
\<close>

datatype proc_outcome = Cannot_start | Completed int string string

record release_request =
  rq_owner :: string
  rq_repo :: string
  rq_tag_name :: string
  rq_name :: string
  rq_body :: string

datatype api_outcome = Api_raises exn | Api_response "json option" "json option"

record 'b externals =
  toml_load :: "'b \<Rightarrow> document option"
  toml_dump :: "document \<Rightarrow> 'b"
  py_str :: "toml \<Rightarrow> string"
  decode_text :: "string \<Rightarrow> string option"
  os_exec :: "nat \<Rightarrow> string option \<Rightarrow> string list \<Rightarrow> proc_outcome"
  forge_create_release :: "nat \<Rightarrow> string \<Rightarrow> string \<Rightarrow> release_request \<Rightarrow> api_outcome"

text \<open>One of the three repeated blocks
  \<^verbatim>\<open>if k not in changelog and value is not None: changelog[k] = value; changes_made = True\<close>.\<close>

definition set_field :: "string \<Rightarrow> string option \<Rightarrow> toml \<times> bool \<Rightarrow> exn + (toml \<times> bool)" where
  "set_field k supplied st = (case st of (changelog, changes_made) \<Rightarrow>
     (case py_contains k changelog of
        Inl e \<Rightarrow> Inl e
      | Inr present \<Rightarrow>
          (if present then Inr (changelog, changes_made)
           else (case supplied of
              None \<Rightarrow> Inr (changelog, changes_made)
            | Some v \<Rightarrow>
                (case py_setitem changelog k (TStr v) of
                   Inl e \<Rightarrow> Inl e
                 | Inr changelog' \<Rightarrow> Inr (changelog', True))))))"

text \<open>A field is settled in a changelog value when its block changes nothing.\<close>

definition inert :: "string \<Rightarrow> string option \<Rightarrow> toml \<Rightarrow> bool" where
  "inert k supplied changelog = (set_field k supplied (changelog, False) = Inr (changelog, False))"

definition set_missing_fields ::
  "string option \<Rightarrow> string option \<Rightarrow> string option \<Rightarrow> toml \<Rightarrow> exn + (toml \<times> bool)" where
  "set_missing_fields remote repository owner changelog =
     (case set_field ''remote'' remote (changelog, False) of
        Inl e \<Rightarrow> Inl e
      | Inr s1 \<Rightarrow>
         (case set_field ''repository'' repository s1 of
            Inl e \<Rightarrow> Inl e
          | Inr s2 \<Rightarrow> set_field ''owner'' owner s2))"

text \<open>\<^verbatim>\<open>if "changelog" not in config: config["changelog"] = {}\<close>\<close>

definition ensure_changelog :: "document \<Rightarrow> document" where
  "ensure_changelog config =
     (if ''changelog'' \<notin> set (map fst config)
      then AList.update ''changelog'' (TTable []) config else config)"

text \<open>
  The file system is a map from paths to contents.  \<open>changelog\<close> aliases
  \<open>config["changelog"]\<close>, so the document written back holds the updated table.
\<close>

definition setup_cog_config ::
  "'b externals \<Rightarrow> string \<Rightarrow> string option \<Rightarrow> string option \<Rightarrow> string option \<Rightarrow>
     (string \<Rightarrow> 'b option) \<Rightarrow> (exn + bool) \<times> (string \<Rightarrow> 'b option)" where
  "setup_cog_config ext cog_toml_path remote repository owner fs =
     (case fs cog_toml_path of
        None \<Rightarrow> (Inl FileNotFoundError, fs)
      | Some content \<Rightarrow>
       (case toml_load ext content of
          None \<Rightarrow> (Inl TOMLDecodeError, fs)
        | Some config0 \<Rightarrow>
           (let config = ensure_changelog config0
            in case map_of config ''changelog'' of
                 None \<Rightarrow> (Inl KeyError, fs)
               | Some changelog \<Rightarrow>
                  (case set_missing_fields remote repository owner changelog of
                     Inl e \<Rightarrow> (Inl e, fs)
                   | Inr (changelog', changes_made) \<Rightarrow>
                      (if changes_made
                       then (Inr True, fs(cog_toml_path \<mapsto>
                               toml_dump ext (AList.update ''changelog'' changelog' config)))
                       else (Inr False, fs))))))"

text \<open>The value of a key of the changelog table of a file, as a reader sees it.\<close>

definition changelog_field :: "'b externals \<Rightarrow> 'b option \<Rightarrow> string \<Rightarrow> toml option" where
  "changelog_field ext file k = (case file of
       None \<Rightarrow> None
     | Some content \<Rightarrow>
        (case toml_load ext content of
           None \<Rightarrow> None
         | Some config \<Rightarrow>
            (case map_of config ''changelog'' of
               Some (TTable kvs) \<Rightarrow> map_of kvs k
             | _ \<Rightarrow> None)))"

section \<open>release_with_cog.py\<close>

subsection \<open>The action runtime\<close>

text \<open>
  The runtime's logging and output surface is recorded as a trace, together with the
  commands started and the requests sent to the forge.  A log entry keeps the level and
  the text of the message as the source writes it: placeholders of f-strings are left
  uninterpreted, and the check mark that opens two messages is dropped.

  The world holds what the runtime reads (\<open>get_user_input\<close>, \<open>get_env\<close>), the files, and a
  clock that counts the external interactions made so far.  During a run the files are
  written by \<open>setup_cog_config\<close> only.
\<close>

datatype level = Debug | Info | Notice | Warning | Error

datatype event =
    Log level string
  | Start_group string
  | End_group
  | Set_output string string
  | Run_process "string option" "string list"
  | Api_create_release string string release_request

record 'b world =
  user_input :: "string \<Rightarrow> string option"
  environ :: "string \<Rightarrow> string option"
  files :: "string \<Rightarrow> 'b option"
  clock :: nat
  trace :: "event list"

definition emit :: "event \<Rightarrow> 'b world \<Rightarrow> 'b world" where
  "emit e w = w\<lparr>trace := trace w @ [e]\<rparr>"

text \<open>\<open>subprocess.run(argv, cwd=cwd, check=check, text=text)\<close>: a program that cannot be
  started raises \<open>OSError\<close>; with \<open>text\<close>, output that does not decode raises
  \<open>UnicodeDecodeError\<close> while the output is collected, whatever the exit status; then, with
  \<open>check\<close>, a non-zero exit status raises \<open>CalledProcessError\<close>.  Without \<open>text\<close> the output
  stays as bytes.\<close>

definition subprocess_run ::
  "'b externals \<Rightarrow> string option \<Rightarrow> string list \<Rightarrow> bool \<Rightarrow> bool \<Rightarrow> 'b world \<Rightarrow>
     (exn + int \<times> string \<times> string) \<times> 'b world" where
  "subprocess_run ext cwd argv check text w =
     (let w' = (emit (Run_process cwd argv) w)\<lparr>clock := Suc (clock w)\<rparr>
      in case os_exec ext (clock w) cwd argv of
           Cannot_start \<Rightarrow> (Inl OSError, w')
         | Completed returncode out_bytes err_bytes \<Rightarrow>
            (case (if text then decode_text ext out_bytes else Some out_bytes,
                   if text then decode_text ext err_bytes else Some err_bytes) of
               (Some out, Some err) \<Rightarrow>
                 (if check \<and> returncode \<noteq> 0
                  then (Inl (CalledProcessError returncode err), w')
                  else (Inr (returncode, out, err), w'))
             | _ \<Rightarrow> (Inl UnicodeDecodeError, w')))"

subsection \<open>Input Resolver\<close>

record action_inputs =
  i_working_directory :: string
  i_dry_run :: string
  i_dry_run_on_non_default_branch :: string
  i_cog_bump_args :: string
  i_cog_changelog_args :: string
  i_remote :: string
  i_owner :: string
  i_repo :: string
  i_create_forgejo_release :: string
  i_update_cog_toml :: string

definition get_action_inputs :: "'b world \<Rightarrow> action_inputs \<times> 'b world" where
  "get_action_inputs w =
     (\<lparr> i_working_directory = py_or (user_input w ''working-directory'') ''.'',
         i_dry_run = py_or (user_input w ''dry-run'') ''false'',
         i_dry_run_on_non_default_branch =
           py_or (user_input w ''dry-run-on-non-default-branch'') ''true'',
         i_cog_bump_args = py_or (user_input w ''cog_bump_args'') [],
         i_cog_changelog_args = py_or (user_input w ''cog_changelog_args'') [],
         i_remote = py_or (user_input w ''remote'') [],
         i_owner = py_or (user_input w ''owner'') [],
         i_repo = py_or (user_input w ''repo'') [],
         i_create_forgejo_release = py_or (user_input w ''create-forgejo-release'') ''true'',
         i_update_cog_toml = py_or (user_input w ''update_cog_toml'') ''true'' \<rparr>,
      emit (Log Debug ''Action inputs: {inputs}'') w)"

definition extract_domain_from_server_url :: "'b world \<Rightarrow> string" where
  "extract_domain_from_server_url w =
     (let server_url = py_or (environ w ''GITHUB_SERVER_URL'') []
      in case split_once ''://'' server_url of
           Some (scheme, rest) \<Rightarrow> rest
         | None \<Rightarrow> server_url)"

definition extract_repo_from_repository :: "'b world \<Rightarrow> string" where
  "extract_repo_from_repository w =
     (let repository = py_or (environ w ''GITHUB_REPOSITORY'') []
      in case split_once ''/'' repository of
           Some (first, rest) \<Rightarrow> rest
         | None \<Rightarrow> repository)"

definition set_default_values ::
  "action_inputs \<Rightarrow> 'b world \<Rightarrow> (string \<times> string \<times> string) \<times> 'b world" where
  "set_default_values inputs w =
     (let w1 = emit (Start_group ''Set default values for remote, owner, repo'') w;
          remote = (if i_remote inputs = [] then extract_domain_from_server_url w1
                    else i_remote inputs);
          owner = (if i_owner inputs = [] then py_or (environ w1 ''GITHUB_REPOSITORY_OWNER'') []
                   else i_owner inputs);
          repo = (if i_repo inputs = [] then extract_repo_from_repository w1
                  else i_repo inputs);
          w2 = emit (Log Notice ''Set defaults - remote: {remote}, owner: {owner}, repo: {repo}'') w1;
          w3 = emit (Set_output ''remote'' remote) w2;
          w4 = emit (Set_output ''owner'' owner) w3;
          w5 = emit (Set_output ''repo'' repo) w4
      in ((remote, owner, repo), emit End_group w5))"

subsection \<open>Dry-Run Decider\<close>

definition determine_dry_run_mode :: "action_inputs \<Rightarrow> 'b world \<Rightarrow> bool \<times> 'b world" where
  "determine_dry_run_mode inputs w =
     (let w1 = emit (Start_group ''Determine dry-run mode'') w;
          head_ref = py_or (environ w1 ''GITHUB_HEAD_REF'') [];
          base_ref = py_or (environ w1 ''GITHUB_BASE_REF'') [];
          (dry_run, w2) =
            (if py_lower (i_dry_run inputs) = ''true'' then
               (if head_ref = base_ref
                then (True, emit (Log Info
                        ''Dry-run enabled: explicit dry-run flag set and on default branch'') w1)
                else (False, w1))
             else if py_lower (i_dry_run_on_non_default_branch inputs) = ''true'' then
               (if head_ref \<noteq> base_ref
                then (True, emit (Log Info ''Dry-run enabled: on non-default branch'') w1)
                else (False, w1))
             else (False, w1));
          w3 = (if \<not> dry_run then emit (Log Info ''Dry-run disabled'') w2 else w2);
          w4 = emit (Set_output ''dry_run_arg'' (if dry_run then ''--dry-run'' else [])) w3;
          w5 = emit (Log Notice ''Dry-run mode: {enabled|disabled}'') w4
      in (dry_run, emit End_group w5))"

subsection \<open>Config Synchronizer\<close>

text \<open>The body of the \<open>try\<close> block of \<open>setup_cog_configuration\<close>.  The inner handler
  catches \<open>CalledProcessError\<close> only; anything else reaches the outer handler.\<close>

definition commit_and_push :: "'b externals \<Rightarrow> 'b world \<Rightarrow> (exn + unit) \<times> 'b world" where
  "commit_and_push ext w =
     (case subprocess_run ext None
             [''git'', ''commit'', ''-m'',
              ''chore: update cog.toml with remote/owner/repo [skip ci]''] True False w of
        (Inl e, w1) \<Rightarrow> (Inl e, w1)
      | (Inr r, w1) \<Rightarrow>
         (case subprocess_run ext None [''git'', ''push'', ''origin'', ''HEAD''] True False w1 of
            (Inl e, w2) \<Rightarrow> (Inl e, w2)
          | (Inr r', w2) \<Rightarrow> (Inr (), emit (Log Info ''Committed and pushed cog.toml changes'') w2)))"

definition sync_body ::
  "'b externals \<Rightarrow> string \<Rightarrow> string \<Rightarrow> string \<Rightarrow> 'b world \<Rightarrow> (exn + unit) \<times> 'b world" where
  "sync_body ext remote owner repo w =
     (let w1 = w\<lparr>environ := (environ w)(''COG_REMOTE'' \<mapsto> remote, ''COG_OWNER'' \<mapsto> owner,
                                          ''COG_REPOSITORY'' \<mapsto> repo)\<rparr>
      in case setup_cog_config ext ''cog.toml'' (Some remote) (Some repo) (Some owner) (files w1) of
           (Inl e, fs) \<Rightarrow> (Inl e, w1\<lparr>files := fs\<rparr>)
         | (Inr changes_made, fs) \<Rightarrow>
            (let w2 = w1\<lparr>files := fs\<rparr> in
             if changes_made then
               (let w3 = emit (Log Info ''Added missing changelog configuration values to cog.toml'') w2
                in case subprocess_run ext None [''git'', ''add'', ''cog.toml''] True False w3 of
                     (Inl e, w4) \<Rightarrow> (Inl e, w4)
                   | (Inr r, w4) \<Rightarrow>
                      (case subprocess_run ext None
                              [''git'', ''diff'', ''--cached'', ''--quiet''] False False w4 of
                         (Inl e, w5) \<Rightarrow> (Inl e, w5)
                       | (Inr (returncode, out, err), w5) \<Rightarrow>
                          (if returncode \<noteq> 0 then
                             (case commit_and_push ext w5 of
                                (Inl (CalledProcessError rc err'), w6) \<Rightarrow>
                                  (Inr (), emit (Log Info ''No changes to commit or push failed'') w6)
                              | (Inl e, w6) \<Rightarrow> (Inl e, w6)
                              | (Inr u, w6) \<Rightarrow> (Inr (), w6))
                           else (Inr (), emit (Log Info ''No changes to cog.toml'') w5))))
             else (Inr (), emit (Log Info
                     ''All changelog configuration values already exist in cog.toml'') w2)))"

definition setup_cog_configuration ::
  "'b externals \<Rightarrow> action_inputs \<Rightarrow> string \<Rightarrow> string \<Rightarrow> string \<Rightarrow> 'b world \<Rightarrow>
     (exn + unit) \<times> 'b world" where
  "setup_cog_configuration ext inputs remote owner repo w =
     (if py_lower (i_update_cog_toml inputs) \<noteq> ''true'' then (Inr (), w)
      else (case sync_body ext remote owner repo
                   (emit (Start_group ''Verify/set cog config values'') w) of
              (Inl e, w1) \<Rightarrow>
                (Inl (ReleaseWithCogError e),
                 emit (Log Error ''Failed to setup cog configuration: {e}'') w1)
            | (Inr u, w1) \<Rightarrow> (Inr (), emit End_group w1)))"

subsection \<open>Version Bumper\<close>

definition run_cog_command ::
  "'b externals \<Rightarrow> string list \<Rightarrow> string \<Rightarrow> 'b world \<Rightarrow> (exn + string) \<times> 'b world" where
  "run_cog_command ext args working_dir w =
     (case subprocess_run ext (Some working_dir) (''cog'' # args) True True w of
        (Inr (returncode, out, err), w1) \<Rightarrow> (Inr (py_strip out), w1)
      | (Inl (CalledProcessError rc err), w1) \<Rightarrow>
          (Inl (ReleaseWithCogError (CalledProcessError rc err)),
           emit (Log Error ''Error: {e.stderr}'')
             (emit (Log Error ''Cog command failed: cog {args}'') w1))
      | (Inl e, w1) \<Rightarrow> (Inl e, w1))"

definition get_cog_version ::
  "'b externals \<Rightarrow> string \<Rightarrow> 'b world \<Rightarrow> (exn + string) \<times> 'b world" where
  "get_cog_version ext working_dir w =
     (case run_cog_command ext [''get-version''] working_dir
             (emit (Start_group ''Determine previous version'') w) of
        (Inr version, w1) \<Rightarrow>
          (Inr version, emit End_group (emit (Log Info ''Current version: {version}'') w1))
      | (Inl (ReleaseWithCogError e), w1) \<Rightarrow> (Inr [], emit End_group w1)
      | (Inl e, w1) \<Rightarrow> (Inl e, w1))"

definition bump_args :: "action_inputs \<Rightarrow> bool \<Rightarrow> string list" where
  "bump_args inputs dry_run =
     [''bump'']
     @ (if py_strip (i_cog_bump_args inputs) \<noteq> []
        then py_split (py_strip (i_cog_bump_args inputs)) else [])
     @ (if dry_run then [''--dry-run''] else [])
     @ [''--auto'', ''--skip-ci'']"

text \<open>The two diagnostic git calls, inside their own \<open>try\<close>.\<close>

definition git_diagnostics :: "'b externals \<Rightarrow> string \<Rightarrow> 'b world \<Rightarrow> (exn + unit) \<times> 'b world" where
  "git_diagnostics ext working_dir w =
     (case subprocess_run ext (Some working_dir) [''git'', ''status''] False True w of
        (Inl e, w1) \<Rightarrow> (Inl e, w1)
      | (Inr (rc, out, err), w1) \<Rightarrow>
         (let w2 = (if out \<noteq> [] then emit (Log Info ''Git status: {status_result.stdout}'') w1
                    else w1)
          in case subprocess_run ext (Some working_dir) [''git'', ''diff''] False True w2 of
               (Inl e, w3) \<Rightarrow> (Inl e, w3)
             | (Inr (rc', out', err'), w3) \<Rightarrow>
                 (Inr (), if out' \<noteq> [] then emit (Log Info ''Git diff: {diff_result.stdout}'') w3
                          else w3)))"

definition bump_body ::
  "'b externals \<Rightarrow> action_inputs \<Rightarrow> string \<Rightarrow> bool \<Rightarrow> 'b world \<Rightarrow> (exn + bool) \<times> 'b world" where
  "bump_body ext inputs working_dir dry_run w =
     (let args = bump_args inputs dry_run;
          w1 = emit (Log Info ''Running: cog {args}'') w
      in case subprocess_run ext (Some working_dir) (''cog'' # args) False True w1 of
           (Inl e, w2) \<Rightarrow> (Inl e, w2)
         | (Inr (returncode, out, err), w2) \<Rightarrow>
            (let w3 = (if returncode = 0 then
                         (let w' = emit (Log Info ''Version bump successful'') w2
                          in if out \<noteq> [] then emit (Log Info ''Output: {result.stdout}'') w' else w')
                       else
                         (let w' = emit (Log Warning
                                 ''Version bump returned non-zero exit code: {result.returncode}'') w2
                          in if err \<noteq> [] then emit (Log Warning ''Error output: {result.stderr}'') w'
                             else w'))
             in case git_diagnostics ext working_dir w3 of
                  (Inl (CalledProcessError rc err'), w4) \<Rightarrow> (Inr (returncode = 0), emit End_group w4)
                | (Inl e, w4) \<Rightarrow> (Inl e, w4)
                | (Inr u, w4) \<Rightarrow> (Inr (returncode = 0), emit End_group w4)))"

definition bump_version ::
  "'b externals \<Rightarrow> action_inputs \<Rightarrow> string \<Rightarrow> bool \<Rightarrow> 'b world \<Rightarrow> (exn + bool) \<times> 'b world" where
  "bump_version ext inputs working_dir dry_run w =
     (case bump_body ext inputs working_dir dry_run (emit (Start_group ''Semver release'') w) of
        (Inl e, w1) \<Rightarrow>
          (Inr False, emit End_group (emit (Log Warning ''Version bump failed with exception: {e}'') w1))
      | (Inr ok, w1) \<Rightarrow> (Inr ok, w1))"

subsection \<open>Changelog Generator\<close>

text \<open>\<open>get_tag_prefix\<close> reads \<open>cog.toml\<close> in a \<open>try\<close> whose handler catches every exception.
  The value of the key is returned as it is, whatever its type.\<close>

definition read_tag_prefix :: "'b externals \<Rightarrow> 'b world \<Rightarrow> exn + toml" where
  "read_tag_prefix ext w = (case files w ''cog.toml'' of
       None \<Rightarrow> Inl FileNotFoundError
     | Some content \<Rightarrow>
        (case toml_load ext content of
           None \<Rightarrow> Inl TOMLDecodeError
         | Some config \<Rightarrow>
            (case map_of config ''tag_prefix'' of None \<Rightarrow> Inr (TStr []) | Some v \<Rightarrow> Inr v)))"

definition get_tag_prefix :: "'b externals \<Rightarrow> 'b world \<Rightarrow> (exn + toml) \<times> 'b world" where
  "get_tag_prefix ext w = (case read_tag_prefix ext w of
       Inl e \<Rightarrow> (Inr (TStr []),
                 emit (Log Info ''No tag_prefix found in cog.toml, using empty prefix'') w)
     | Inr v \<Rightarrow> (Inr v, w))"

text \<open>The f-string \<open>f"{tag_prefix}{version}"\<close>.\<close>

definition full_tag :: "'b externals \<Rightarrow> toml \<Rightarrow> string \<Rightarrow> string" where
  "full_tag ext tag_prefix version =
     (case tag_prefix of TStr s \<Rightarrow> s | v \<Rightarrow> py_str ext v) @ version"

definition changelog_args ::
  "'b externals \<Rightarrow> action_inputs \<Rightarrow> string \<Rightarrow> string \<Rightarrow> string \<Rightarrow> string \<Rightarrow> 'b world \<Rightarrow>
     (exn + string list) \<times> 'b world" where
  "changelog_args ext inputs remote owner repo version w =
     (let args = [''changelog'']
            @ (if py_strip (i_cog_changelog_args inputs) \<noteq> []
               then py_split (py_strip (i_cog_changelog_args inputs)) else [])
            @ (if remote \<noteq> [] \<and> owner \<noteq> [] \<and> repo \<noteq> []
               then [''--remote'', remote, ''--owner'', owner, ''--repository'', repo] else [])
      in if version \<noteq> [] then
           (case get_tag_prefix ext w of
              (Inl e, w1) \<Rightarrow> (Inl e, w1)
            | (Inr tag_prefix, w1) \<Rightarrow>
                (Inr (args @ [''--at'', full_tag ext tag_prefix version]), w1))
         else (Inr args, w))"

definition changelog_body ::
  "'b externals \<Rightarrow> action_inputs \<Rightarrow> string \<Rightarrow> string \<Rightarrow> string \<Rightarrow> string \<Rightarrow> 'b world \<Rightarrow>
     (exn + string) \<times> 'b world" where
  "changelog_body ext inputs remote owner repo version w =
     (case changelog_args ext inputs remote owner repo version w of
        (Inl e, w1) \<Rightarrow> (Inl e, w1)
      | (Inr args, w1) \<Rightarrow>
         (case run_cog_command ext args ''.''
                 (emit (Log Info ''Generating changelog with: cog {args}'') w1) of
            (Inl e, w2) \<Rightarrow> (Inl e, w2)
          | (Inr changelog, w2) \<Rightarrow>
              (Inr changelog,
               emit End_group (emit (Log Info ''Changelog generated successfully'') w2))))"

definition generate_changelog ::
  "'b externals \<Rightarrow> action_inputs \<Rightarrow> string \<Rightarrow> string \<Rightarrow> string \<Rightarrow> string \<Rightarrow> 'b world \<Rightarrow>
     (exn + string) \<times> 'b world" where
  "generate_changelog ext inputs remote owner repo version w =
     (case changelog_body ext inputs remote owner repo version
             (emit (Start_group ''Generate changelog'') w) of
        (Inl (ReleaseWithCogError e), w1) \<Rightarrow>
          (Inr [], emit End_group (emit (Log Error ''Failed to generate changelog: {e}'') w1))
      | (Inl e, w1) \<Rightarrow> (Inl e, w1)
      | (Inr changelog, w1) \<Rightarrow> (Inr changelog, w1))"

subsection \<open>Release Publisher\<close>

text \<open>The response of the REST client is seen through \<open>getattr\<close> only: each of
  \<open>html_url\<close> and \<open>id\<close> is either absent or holds a value.\<close>

definition release_attempt ::
  "'b externals \<Rightarrow> string \<Rightarrow> string \<Rightarrow> string \<Rightarrow> string \<Rightarrow> 'b world \<Rightarrow>
     (exn + string option) \<times> 'b world" where
  "release_attempt ext version changelog owner repo w =
     (case py_or_opt (environ w ''FORGEJO_TOKEN'') None of
        None \<Rightarrow>
          (Inr None,
           emit End_group (emit (Log Error ''FORGEJO_TOKEN environment variable not set'') w))
      | Some token \<Rightarrow>
         (case py_or_opt (py_or_opt (environ w ''FORGEJO_SERVER_URL'')
                            (environ w ''GITHUB_SERVER_URL'')) None of
            None \<Rightarrow>
              (Inr None,
               emit End_group (emit (Log Error
                 ''FORGEJO_SERVER_URL or GITHUB_SERVER_URL environment variable not set'') w))
          | Some url \<Rightarrow>
             (let server_url = (if starts_with ''http://'' url \<or> starts_with ''https://'' url
                                then url else ''https://'' @ url);
                  w1 = emit (Log Info
                         ''Creating Forgejo release for {owner}/{repo} version {version}'') w;
                  request = \<lparr> rq_owner = owner, rq_repo = repo, rq_tag_name = version,
                              rq_name = version, rq_body = changelog \<rparr>;
                  w2 = (emit (Api_create_release server_url token request) w1)
                         \<lparr>clock := Suc (clock w1)\<rparr>
              in case forge_create_release ext (clock w1) server_url token request of
                   Api_raises e \<Rightarrow> (Inl e, w2)
                 | Api_response html_url_attr id_attr \<Rightarrow>
                    (let release_url = (case html_url_attr of
                             Some v \<Rightarrow> v
                           | None \<Rightarrow> JStr (server_url @ ''/'' @ owner @ ''/'' @ repo
                                             @ ''/releases/tag/'' @ version));
                         w3 = emit (Log Info
                                ''Forgejo release created successfully: {release_url}'') w2;
                         release_dict = JObj
                           [(''tag_name'', JStr version),
                            (''name'', JStr version),
                            (''body'', JStr changelog),
                            (''html_url'', release_url),
                            (''id'', case id_attr of Some v \<Rightarrow> v | None \<Rightarrow> JNull)]
                     in (Inr (Some (json_dumps release_dict)), emit End_group w3)))))"

definition create_forgejo_release ::
  "'b externals \<Rightarrow> string \<Rightarrow> string \<Rightarrow> string \<Rightarrow> string \<Rightarrow> 'b world \<Rightarrow>
     (exn + string option) \<times> 'b world" where
  "create_forgejo_release ext version changelog owner repo w =
     (if version = [] then
        (Inr None, emit (Log Info ''No version available, skipping Forgejo release creation'') w)
      else
        (case release_attempt ext version changelog owner repo
                (emit (Start_group ''Create Forgejo release'') w) of
           (Inl e, w1) \<Rightarrow>
             (Inr None,
              emit End_group (emit (Log Error ''Failed to create Forgejo release: {e}'') w1))
         | (Inr r, w1) \<Rightarrow> (Inr r, w1)))"

subsection \<open>Orchestration\<close>

definition publish_step ::
  "'b externals \<Rightarrow> action_inputs \<Rightarrow> string \<Rightarrow> string \<Rightarrow> string \<Rightarrow> string \<Rightarrow> 'b world \<Rightarrow>
     (exn + unit) \<times> 'b world" where
  "publish_step ext inputs current_version changelog owner repo w =
     (if py_lower (i_create_forgejo_release inputs) = ''true'' \<and> current_version \<noteq> [] then
        (case create_forgejo_release ext current_version changelog owner repo w of
           (Inl e, w1) \<Rightarrow> (Inl e, w1)
         | (Inr None, w1) \<Rightarrow> (Inr (), w1)
         | (Inr (Some release_response), w1) \<Rightarrow>
             (if release_response \<noteq> [] then
                (Inr (), emit (Set_output ''forgejo_release_output''
                                 (json_dumps (JStr release_response))) w1)
              else (Inr (), w1)))
      else (Inr (), w))"

text \<open>The first three calls of \<open>main\<close>: none of them can raise.\<close>

definition resolve_inputs ::
  "'b world \<Rightarrow> (action_inputs \<times> (string \<times> string \<times> string) \<times> bool) \<times> 'b world" where
  "resolve_inputs w =
     (let w0 = emit (Log Info ''Starting release-with-cog Python implementation'') w;
          (inputs, w1) = get_action_inputs w0;
          (coordinates, w2) = set_default_values inputs w1;
          (dry_run, w3) = determine_dry_run_mode inputs w2
      in ((inputs, coordinates, dry_run), w3))"

definition release_steps ::
  "'b externals \<Rightarrow> action_inputs \<Rightarrow> string \<Rightarrow> string \<Rightarrow> string \<Rightarrow> bool \<Rightarrow> 'b world \<Rightarrow>
     (exn + unit) \<times> 'b world" where
  "release_steps ext inputs remote owner repo dry_run w =
     (let working_dir = i_working_directory inputs
      in case get_cog_version ext working_dir w of
           (Inl e, w1) \<Rightarrow> (Inl e, w1)
         | (Inr previous_version, w1) \<Rightarrow>
      (case bump_version ext inputs working_dir dry_run
              (emit (Set_output ''previous_version'' previous_version) w1) of
           (Inl e, w2) \<Rightarrow> (Inl e, w2)
         | (Inr bumped, w2) \<Rightarrow>
      (case get_cog_version ext working_dir w2 of
           (Inl e, w3) \<Rightarrow> (Inl e, w3)
         | (Inr current_version, w3) \<Rightarrow>
      (case generate_changelog ext inputs remote owner repo current_version
              (emit (Set_output ''current_version'' current_version) w3) of
           (Inl e, w4) \<Rightarrow> (Inl e, w4)
         | (Inr changelog, w4) \<Rightarrow>
      (case publish_step ext inputs current_version changelog owner repo
              (emit (Set_output ''changelog'' changelog) w4) of
           (Inl e, w5) \<Rightarrow> (Inl e, w5)
         | (Inr u, w5) \<Rightarrow>
             (Inr (), emit (Log Info ''Release process completed successfully'') w5))))))"

definition main_body :: "'b externals \<Rightarrow> 'b world \<Rightarrow> (exn + unit) \<times> 'b world" where
  "main_body ext w =
     (case resolve_inputs w of
        ((inputs, (remote, owner, repo), dry_run), w1) \<Rightarrow>
          (case setup_cog_configuration ext inputs remote owner repo w1 of
             (Inl e, w2) \<Rightarrow> (Inl e, w2)
           | (Inr u, w2) \<Rightarrow> release_steps ext inputs remote owner repo dry_run w2))"

text \<open>The call of the Config Synchronizer that a run makes.\<close>

definition sync_step :: "'b externals \<Rightarrow> 'b world \<Rightarrow> (exn + unit) \<times> 'b world" where
  "sync_step ext w =
     (case resolve_inputs w of
        ((inputs, (remote, owner, repo), dry_run), w1) \<Rightarrow>
          setup_cog_configuration ext inputs remote owner repo w1)"

text \<open>\<open>main\<close> turns the typed pipeline error into \<open>sys.exit(1)\<close>; any other exception
  leaves the interpreter uncaught, which also ends the process with status 1.\<close>

datatype outcome = Returned | Exited int | Uncaught exn

definition main :: "'b externals \<Rightarrow> 'b world \<Rightarrow> outcome \<times> 'b world" where
  "main ext w = (case main_body ext w of
       (Inl (ReleaseWithCogError e), w1) \<Rightarrow>
         (Exited 1, emit (Log Error ''Release process failed: {e}'') w1)
     | (Inl e, w1) \<Rightarrow> (Uncaught e, w1)
     | (Inr u, w1) \<Rightarrow> (Returned, w1))"

definition exit_status :: "outcome \<Rightarrow> int" where
  "exit_status r = (case r of Returned \<Rightarrow> 0 | Exited n \<Rightarrow> n | Uncaught e \<Rightarrow> 1)"

definition outputs :: "event list \<Rightarrow> (string \<times> string) list" where
  "outputs evs = concat (map (\<lambda>e. case e of Set_output k v \<Rightarrow> [(k, v)] | _ \<Rightarrow> []) evs)"

text \<open>The requests sent to the forge, in the order in which they were sent.\<close>

definition requests :: "event list \<Rightarrow> release_request list" where
  "requests evs = concat (map (\<lambda>e. case e of Api_create_release url token request \<Rightarrow> [request]
                                            | _ \<Rightarrow> []) evs)"

text \<open>A step leaves the files, the environment and the requests sent as they were.\<close>

abbreviation unchanged :: "'b world \<Rightarrow> 'b world \<Rightarrow> bool" where
  "unchanged w w' \<equiv> files w' = files w \<and> environ w' = environ w
                      \<and> requests (trace w') = requests (trace w)"

section \<open>Example worlds\<close>

text \<open>A file system that stores parsed documents, so that reading inverts writing, a
  decoder that accepts ASCII bytes only, and a world given by its inputs, its environment
  and the content of \<open>cog.toml\<close>.\<close>

definition ascii_decode :: "string \<Rightarrow> string option" where
  "ascii_decode bytes = (if list_all (\<lambda>c. (of_char c :: nat) < 128) bytes then Some bytes else None)"

definition example_ext ::
  "(nat \<Rightarrow> string option \<Rightarrow> string list \<Rightarrow> proc_outcome) \<Rightarrow>
   (nat \<Rightarrow> string \<Rightarrow> string \<Rightarrow> release_request \<Rightarrow> api_outcome) \<Rightarrow> document externals" where
  "example_ext exec api =
     \<lparr> toml_load = Some, toml_dump = (\<lambda>d. d), py_str = (\<lambda>v. ''<value>''),
       decode_text = ascii_decode, os_exec = exec, forge_create_release = api \<rparr>"

definition example_world ::
  "(string \<times> string) list \<Rightarrow> (string \<times> string) list \<Rightarrow> document option \<Rightarrow> document world" where
  "example_world inputs env cog_toml =
     \<lparr> user_input = map_of inputs, environ = map_of env,
       files = (\<lambda>p. if p = ''cog.toml'' then cog_toml else None), clock = 0, trace = [] \<rparr>"

definition example_fs :: "document option \<Rightarrow> string \<Rightarrow> document option" where
  "example_fs cog_toml = (\<lambda>p. if p = ''cog.toml'' then cog_toml else None)"

definition example_partial_config :: document where
  "example_partial_config =
     [(''changelog'', TTable [(''path'', TStr ''CHANGELOG.md''), (''template'', TStr ''remote'')])]"

definition quiet_ext :: "document externals" where
  "quiet_ext = example_ext (\<lambda>n cwd argv. Completed 0 [] []) (\<lambda>n url token rq. Api_response None None)"

text \<open>The decision of the Dry-Run Decider for given values of the two inputs and of the
  head and base references.\<close>

definition example_decision :: "string \<Rightarrow> string \<Rightarrow> string \<Rightarrow> string \<Rightarrow> bool" where
  "example_decision dry_run non_default head_ref base_ref =
     (let w = example_world
                [(''dry-run'', dry_run), (''dry-run-on-non-default-branch'', non_default)]
                [(''GITHUB_HEAD_REF'', head_ref), (''GITHUB_BASE_REF'', base_ref)] None
      in fst (determine_dry_run_mode (fst (get_action_inputs w)) w))"

definition example_existing_config :: document where
  "example_existing_config = [(''changelog'', TTable [(''remote'', TStr ''existing'')])]"

definition example_bare_config :: document where
  "example_bare_config = [(''tag_prefix'', TStr ''v'')]"


definition missing_cog_ext :: "document externals" where
  "missing_cog_ext = example_ext
     (\<lambda>n cwd argv. if take 1 argv = [''cog''] then Cannot_start else Completed 0 [] [])
     (\<lambda>n url token rq. Api_response None None)"

definition example_stdout :: string where
  "example_stdout = ''1.0.0'' @ [CHR 0x0A]"

definition releasing_ext :: "document externals" where
  "releasing_ext = example_ext
     (\<lambda>n cwd argv. Completed 0 example_stdout [])
     (\<lambda>n url token rq.
        Api_response (Some (JStr ''https://forge.example/acme/proj/releases/tag/1.0.0''))
                     (Some (JInt 7)))"

definition releasing_world :: "document world" where
  "releasing_world = example_world [(''update_cog_toml'', ''false'')]
     [(''FORGEJO_TOKEN'', ''secret''), (''GITHUB_SERVER_URL'', ''https://forge.example''),
      (''GITHUB_REPOSITORY_OWNER'', ''acme''), (''GITHUB_REPOSITORY'', ''acme/proj'')] None"

definition example_release_record :: json where
  "example_release_record = JObj
     [(''tag_name'', JStr ''1.0.0''), (''name'', JStr ''1.0.0''), (''body'', JStr ''1.0.0''),
      (''html_url'', JStr ''https://forge.example/acme/proj/releases/tag/1.0.0''),
      (''id'', JInt 7)]"

text \<open>Every command exits with status 1 and writes one byte that is not ASCII to its
  standard error.\<close>

definition garbled_ext :: "document externals" where
  "garbled_ext = example_ext (\<lambda>n cwd argv. Completed 1 [] [CHR 0xFF])
                             (\<lambda>n url token rq. Api_response None None)"

text \<open>A repository whose \<open>cog.toml\<close> sets \<open>tag_prefix = "v"\<close>, with a token and a server.\<close>

definition prefixed_world :: "document world" where
  "prefixed_world = example_world [(''update_cog_toml'', ''false'')]
     [(''FORGEJO_TOKEN'', ''secret''), (''GITHUB_SERVER_URL'', ''https://forge.example''),
      (''GITHUB_REPOSITORY_OWNER'', ''acme''), (''GITHUB_REPOSITORY'', ''acme/proj'')]
     (Some example_bare_config)"

definition example_request :: release_request where
  "example_request = \<lparr> rq_owner = ''acme'', rq_repo = ''proj'', rq_tag_name = ''1.0.0'',
                         rq_name = ''1.0.0'', rq_body = ''1.0.0'' \<rparr>"

section \<open>Dry-Run Decider: the decision table\<close>

text \<open>
  Claim C1.  For every value of the inputs \<open>dry-run\<close> and \<open>dry-run-on-non-default-branch\<close>
  (each counting as true when its lower-cased text is \<open>true\<close>) and of the head and base
  references, \<open>determine_dry_run_mode\<close> returns DRY_RUN exactly when the explicit flag is
  true on the default branch (head reference equal to base reference), or the explicit
  flag is false, the non-default-branch flag is true and the branch is not the default
  one; it returns LIVE in every other case.
\<close>

theorem determine_dry_run_mode_table:
  "fst (determine_dry_run_mode inputs w) =
     (let explicit_dry_run = (py_lower (i_dry_run inputs) = ''true'');
          dry_run_on_non_default_branch =
            (py_lower (i_dry_run_on_non_default_branch inputs) = ''true'');
          on_default_branch =
            (py_or (environ w ''GITHUB_HEAD_REF'') [] = py_or (environ w ''GITHUB_BASE_REF'') [])
      in (explicit_dry_run \<and> on_default_branch)
         \<or> (\<not> explicit_dry_run \<and> dry_run_on_non_default_branch \<and> \<not> on_default_branch))"
  by (simp add: determine_dry_run_mode_def Let_def emit_def split: prod.splits)

text \<open>The eight rows of the table, on the branches \<open>main\<close> and \<open>feature\<close>.\<close>

theorem determine_dry_run_mode_table_witness:
  "example_decision ''true'' ''true'' ''main'' ''main''
   \<and> example_decision ''true'' ''false'' ''main'' ''main''
   \<and> \<not> example_decision ''true'' ''true'' ''feature'' ''main''
   \<and> \<not> example_decision ''true'' ''false'' ''feature'' ''main''
   \<and> example_decision ''false'' ''true'' ''feature'' ''main''
   \<and> \<not> example_decision ''false'' ''true'' ''main'' ''main''
   \<and> \<not> example_decision ''false'' ''false'' ''feature'' ''main''
   \<and> \<not> example_decision ''false'' ''false'' ''main'' ''main''"
  unfolding example_decision_def Let_def determine_dry_run_mode_table
  by code_simp

section \<open>Config Synchronizer: helper facts\<close>

lemma set_field_cases:
  assumes "set_field k supplied (cl, b) = Inr (cl', b')"
  shows "(cl' = cl \<and> b' = b) \<or>
         (\<exists>kvs v. cl = TTable kvs \<and> supplied = Some v \<and> k \<notin> set (map fst kvs)
             \<and> cl' = TTable (AList.update k (TStr v) kvs) \<and> b')"
  using assms
  by (auto simp: set_field_def py_contains_def py_setitem_def
      split: toml.splits if_splits option.splits sum.splits)

lemma inert_any_flag:
  assumes "inert k supplied cl"
  shows "set_field k supplied (cl, b) = Inr (cl, b)"
  using assms
  by (auto simp: inert_def set_field_def py_contains_def py_setitem_def
      split: toml.splits if_splits option.splits sum.splits)

lemma set_field_inert:
  assumes "set_field k supplied (cl, b) = Inr (cl', b')"
  shows "inert k supplied cl'"
  using assms
  by (auto simp: inert_def set_field_def py_contains_def py_setitem_def AList.dom_update
      split: toml.splits if_splits option.splits sum.splits)

lemma inert_preserved:
  assumes "inert k supplied cl" and "set_field k2 s2 (cl, b) = Inr (cl', b')"
  shows "inert k supplied cl'"
proof -
  from set_field_cases[OF assms(2)] show ?thesis
  proof
    assume "cl' = cl \<and> b' = b" with assms(1) show ?thesis by simp
  next
    assume "\<exists>kvs v. cl = TTable kvs \<and> s2 = Some v \<and> k2 \<notin> set (map fst kvs)
             \<and> cl' = TTable (AList.update k2 (TStr v) kvs) \<and> b'"
    then obtain kvs v where cl: "cl = TTable kvs"
      and cl': "cl' = TTable (AList.update k2 (TStr v) kvs)"
      by blast
    from assms(1) have "k \<in> set (map fst kvs) \<or> supplied = None"
      unfolding inert_def cl
      by (auto simp: set_field_def py_contains_def py_setitem_def split: if_splits option.splits)
    then show ?thesis unfolding inert_def cl'
      by (auto simp: set_field_def py_contains_def py_setitem_def AList.dom_update)
  qed
qed

lemma set_missing_fields_settled:
  assumes "set_missing_fields r rp ow cl = Inr (cl', c)"
  shows "set_missing_fields r rp ow cl' = Inr (cl', False)"
proof -
  from assms obtain c1 b1 c2 b2 where
    s1: "set_field ''remote'' r (cl, False) = Inr (c1, b1)" and
    s2: "set_field ''repository'' rp (c1, b1) = Inr (c2, b2)" and
    s3: "set_field ''owner'' ow (c2, b2) = Inr (cl', c)"
    by (auto simp: set_missing_fields_def split: sum.splits)
  have i1: "inert ''remote'' r cl'"
    using inert_preserved[OF inert_preserved[OF set_field_inert[OF s1] s2] s3] .
  have i2: "inert ''repository'' rp cl'"
    using inert_preserved[OF set_field_inert[OF s2] s3] .
  have i3: "inert ''owner'' ow cl'"
    using set_field_inert[OF s3] .
  show ?thesis
    by (simp add: set_missing_fields_def inert_any_flag[OF i1] inert_any_flag[OF i2]
        inert_any_flag[OF i3])
qed

lemma ensure_changelog_update:
  "ensure_changelog (AList.update ''changelog'' v config) = AList.update ''changelog'' v config"
  by (simp add: ensure_changelog_def AList.dom_update)

section \<open>Config Synchronizer: idempotence\<close>

text \<open>
  Claim C4.  The Config Synchronizer is idempotent: whenever a run of \<open>setup_cog_config\<close>
  returns, a second run with the same arguments on the files the first run left returns
  \<open>changes_made = False\<close> and leaves every file as it was after the first run.  The TOML
  reader is assumed to give back the document that the TOML writer wrote.
\<close>

theorem setup_cog_config_idempotent:
  assumes roundtrip: "\<And>d. toml_load ext (toml_dump ext d) = Some d"
    and first: "setup_cog_config ext path remote repository owner fs = (Inr changes_made, fs')"
  shows "setup_cog_config ext path remote repository owner fs' = (Inr False, fs')"
proof -
  from first obtain content config0 changelog changelog' where
    f: "fs path = Some content" and l: "toml_load ext content = Some config0" and
    c: "map_of (ensure_changelog config0) ''changelog'' = Some changelog" and
    m: "set_missing_fields remote repository owner changelog = Inr (changelog', changes_made)" and
    fs': "fs' = (if changes_made
            then fs(path \<mapsto> toml_dump ext
                   (AList.update ''changelog'' changelog' (ensure_changelog config0)))
            else fs)"
    by (auto simp: setup_cog_config_def Let_def
        split: option.splits sum.splits prod.splits if_splits)
  show ?thesis
  proof (cases changes_made)
    case False
    with fs' first show ?thesis by simp
  next
    case True
    let ?config' = "AList.update ''changelog'' changelog' (ensure_changelog config0)"
    have written: "fs' path = Some (toml_dump ext ?config')" using True fs' by simp
    have look: "map_of (ensure_changelog ?config') ''changelog'' = Some changelog'"
      by (simp add: ensure_changelog_update AList.update_conv')
    show ?thesis
      by (simp add: setup_cog_config_def written roundtrip look Let_def
          set_missing_fields_settled[OF m])
  qed
qed

text \<open>A file with only \<open>path\<close> and \<open>template\<close>: the first run writes, the second does not.\<close>

theorem setup_cog_config_idempotent_witness:
  "fst (setup_cog_config quiet_ext ''cog.toml''
          (Some ''git.example.com'') (Some ''proj'') (Some ''acme'')
          (example_fs (Some example_partial_config))) = Inr True
   \<and> setup_cog_config quiet_ext ''cog.toml''
          (Some ''git.example.com'') (Some ''proj'') (Some ''acme'')
          (snd (setup_cog_config quiet_ext ''cog.toml''
             (Some ''git.example.com'') (Some ''proj'') (Some ''acme'')
             (example_fs (Some example_partial_config))))
     = (Inr False,
        snd (setup_cog_config quiet_ext ''cog.toml''
             (Some ''git.example.com'') (Some ''proj'') (Some ''acme'')
             (example_fs (Some example_partial_config))))"
proof -
  let ?run = "setup_cog_config quiet_ext ''cog.toml''
     (Some ''git.example.com'') (Some ''proj'') (Some ''acme'')
     (example_fs (Some example_partial_config))"
  have rt: "\<And>d. toml_load quiet_ext (toml_dump quiet_ext d) = Some d"
    by (simp add: quiet_ext_def example_ext_def)
  have f: "fst ?run = Inr True"
    by code_simp
  then have first: "?run = (Inr True, snd ?run)"
    by (metis prod.collapse)
  from f setup_cog_config_idempotent[of quiet_ext, OF rt first] show ?thesis by simp
qed

section \<open>Config Synchronizer: runs on a changelog table\<close>

lemma set_field_table:
  "set_field k supplied (TTable kvs, b) =
     Inr (case supplied of
            None \<Rightarrow> (TTable kvs, b)
          | Some v \<Rightarrow> if k \<in> fst ` set kvs then (TTable kvs, b)
                      else (TTable (AList.update k (TStr v) kvs), True))"
  by (simp add: set_field_def py_contains_def py_setitem_def split: option.splits)

lemma key_present: "map_of kvs k = Some v \<Longrightarrow> k \<in> fst ` set kvs"
  by (metis map_of_eq_None_iff option.distinct(1))

lemma ensure_changelog_present:
  "map_of config ''changelog'' = Some v \<Longrightarrow> ensure_changelog config = config"
  by (simp add: ensure_changelog_def key_present)

lemma ensure_changelog_absent:
  "map_of config ''changelog'' = None \<Longrightarrow>
     map_of (ensure_changelog config) ''changelog'' = Some (TTable [])"
  by (auto simp: ensure_changelog_def AList.update_conv' map_of_eq_None_iff)


lemma setup_cog_config_table:
  assumes "fs path = Some content" and "toml_load ext content = Some config"
    and "map_of (ensure_changelog config) ''changelog'' = Some (TTable kvs)"
  shows "setup_cog_config ext path remote repository owner fs =
    (case set_missing_fields remote repository owner (TTable kvs) of
       Inl e \<Rightarrow> (Inl e, fs)
     | Inr (changelog', changes_made) \<Rightarrow>
         if changes_made
         then (Inr True, fs(path \<mapsto> toml_dump ext
                 (AList.update ''changelog'' changelog' (ensure_changelog config))))
         else (Inr False, fs))"
  using assms by (simp add: setup_cog_config_def Let_def)

lemma set_field_table_frame:
  assumes "set_field k supplied (TTable kvs, b) = Inr (cl', b')"
  shows "\<exists>kvs'. cl' = TTable kvs'
     \<and> (\<forall>j v. map_of kvs j = Some v \<longrightarrow> map_of kvs' j = Some v)
     \<and> (\<forall>j. j \<noteq> k \<longrightarrow> map_of kvs' j = map_of kvs j)
     \<and> (\<not> b' \<longrightarrow> kvs' = kvs \<and> \<not> b)"
proof (cases "supplied = None \<or> k \<in> fst ` set kvs")
  case True
  with assms have "cl' = TTable kvs \<and> b' = b"
    by (auto simp: set_field_table split: option.splits)
  then show ?thesis by simp
next
  case False
  then obtain v where v: "supplied = Some v" and nk: "k \<notin> fst ` set kvs" by auto
  from nk have none: "map_of kvs k = None" by (simp add: map_of_eq_None_iff)
  from assms v nk have "cl' = TTable (AList.update k (TStr v) kvs) \<and> b'"
    by (simp add: set_field_table)
  then show ?thesis using none by (auto simp: AList.update_conv')
qed

lemma set_field_table_total:
  "\<exists>c b'. set_field k supplied (TTable kvs, b) = Inr (c, b')"
  by (simp add: set_field_table split: option.splits)

lemma set_missing_fields_table:
  "\<exists>kvs' c. set_missing_fields remote repository owner (TTable kvs) = Inr (TTable kvs', c)
     \<and> (\<forall>j v. map_of kvs j = Some v \<longrightarrow> map_of kvs' j = Some v)
     \<and> (\<forall>j. j \<notin> {''remote'', ''repository'', ''owner''} \<longrightarrow> map_of kvs' j = map_of kvs j)
     \<and> (\<not> c \<longrightarrow> kvs' = kvs)"
proof -
  obtain c1 b1 where s1: "set_field ''remote'' remote (TTable kvs, False) = Inr (c1, b1)"
    using set_field_table_total by blast
  from set_field_table_frame[OF s1] obtain k1 where
    c1: "c1 = TTable k1" and
    p1: "\<forall>j v. map_of kvs j = Some v \<longrightarrow> map_of k1 j = Some v" and
    f1: "\<forall>j. j \<noteq> ''remote'' \<longrightarrow> map_of k1 j = map_of kvs j" and
    u1: "\<not> b1 \<longrightarrow> k1 = kvs"
    by blast
  obtain c2 b2 where s2: "set_field ''repository'' repository (TTable k1, b1) = Inr (c2, b2)"
    using set_field_table_total by blast
  from set_field_table_frame[OF s2] obtain k2 where
    c2: "c2 = TTable k2" and
    p2: "\<forall>j v. map_of k1 j = Some v \<longrightarrow> map_of k2 j = Some v" and
    f2: "\<forall>j. j \<noteq> ''repository'' \<longrightarrow> map_of k2 j = map_of k1 j" and
    u2: "\<not> b2 \<longrightarrow> k2 = k1 \<and> \<not> b1"
    by blast
  obtain c3 b3 where s3: "set_field ''owner'' owner (TTable k2, b2) = Inr (c3, b3)"
    using set_field_table_total by blast
  from set_field_table_frame[OF s3] obtain k3 where
    c3: "c3 = TTable k3" and
    p3: "\<forall>j v. map_of k2 j = Some v \<longrightarrow> map_of k3 j = Some v" and
    f3: "\<forall>j. j \<noteq> ''owner'' \<longrightarrow> map_of k3 j = map_of k2 j" and
    u3: "\<not> b3 \<longrightarrow> k3 = k2 \<and> \<not> b2"
    by blast
  have run: "set_missing_fields remote repository owner (TTable kvs) = Inr (TTable k3, b3)"
    using s1 s2 s3 by (simp add: set_missing_fields_def c1 c2 c3)
  have keep: "\<forall>j v. map_of kvs j = Some v \<longrightarrow> map_of k3 j = Some v"
    using p1 p2 p3 by blast
  have frame: "\<forall>j. j \<notin> {''remote'', ''repository'', ''owner''} \<longrightarrow> map_of k3 j = map_of kvs j"
    using f1 f2 f3 by simp
  have unch: "\<not> b3 \<longrightarrow> k3 = kvs"
    using u1 u2 u3 by blast
  from run keep frame unch show ?thesis by blast
qed

lemma setup_cog_config_on_table:
  assumes present: "fs path = Some content"
    and load: "toml_load ext content = Some config"
    and table: "map_of (ensure_changelog config) ''changelog'' = Some (TTable kvs)"
  shows "\<exists>c kvs'.
       setup_cog_config ext path remote repository owner fs =
         (Inr c, if c then fs(path \<mapsto> toml_dump ext
                    (AList.update ''changelog'' (TTable kvs') (ensure_changelog config))) else fs)
     \<and> set_missing_fields remote repository owner (TTable kvs) = Inr (TTable kvs', c)
     \<and> (\<forall>j v. map_of kvs j = Some v \<longrightarrow> map_of kvs' j = Some v)
     \<and> (\<forall>j. j \<notin> {''remote'', ''repository'', ''owner''} \<longrightarrow> map_of kvs' j = map_of kvs j)
     \<and> (\<not> c \<longrightarrow> kvs' = kvs)"
proof -
  from set_missing_fields_table[of remote repository owner kvs]
  obtain kvs' c where
    m: "set_missing_fields remote repository owner (TTable kvs) = Inr (TTable kvs', c)" and
    r1: "\<forall>j v. map_of kvs j = Some v \<longrightarrow> map_of kvs' j = Some v" and
    r2: "\<forall>j. j \<notin> {''remote'', ''repository'', ''owner''} \<longrightarrow> map_of kvs' j = map_of kvs j" and
    r3: "\<not> c \<longrightarrow> kvs' = kvs"
    by (elim exE conjE)
  have run: "setup_cog_config ext path remote repository owner fs =
         (Inr c, if c then fs(path \<mapsto> toml_dump ext
                    (AList.update ''changelog'' (TTable kvs') (ensure_changelog config))) else fs)"
    unfolding setup_cog_config_table[where fs=fs and path=path, OF present load table] m by simp
  show ?thesis
    apply (rule exI[of _ c])
    apply (rule exI[of _ kvs'])
    apply (intro conjI)
        apply (rule run)
       apply (rule m)
      apply (rule r1)
     apply (rule r2)
    apply (rule r3)
    done
qed

lemma working_table:
  assumes "map_of config ''changelog'' = None \<or> map_of config ''changelog'' = Some (TTable kvs)"
  shows "map_of (ensure_changelog config) ''changelog'' =
           Some (TTable (if map_of config ''changelog'' = None then [] else kvs))"
  using assms by (auto simp: ensure_changelog_absent ensure_changelog_present)

lemma read_back:
  assumes roundtrip: "\<And>d. toml_load ext (toml_dump ext d) = Some d"
    and present: "fs path = Some content"
    and load: "toml_load ext content = Some config"
    and shape: "map_of config ''changelog'' = None \<and> kvs = []
                \<or> map_of config ''changelog'' = Some (TTable kvs)"
    and unch: "\<not> c \<longrightarrow> kvs' = kvs"
  shows "changelog_field ext
           ((if c then fs(path \<mapsto> toml_dump ext
               (AList.update ''changelog'' (TTable kvs') (ensure_changelog config))) else fs) path) k
         = map_of kvs' k"
proof (cases c)
  case True
  then show ?thesis
    by (simp add: changelog_field_def roundtrip AList.update_conv')
next
  case False
  with unch have "kvs' = kvs" by simp
  with False shape show ?thesis
    by (auto simp: changelog_field_def present load)
qed

lemma supplied_ignored:
  assumes "k \<in> fst ` set kvs"
  shows "set_field k supplied (TTable kvs, b) = Inr (TTable kvs, b)"
  using assms by (simp add: set_field_table split: option.splits)

section \<open>Config Synchronizer: existing values are kept\<close>

text \<open>
  Claim C5.  When the changelog table of the file already holds \<open>remote\<close>, \<open>repository\<close> or
  \<open>owner\<close>, \<open>setup_cog_config\<close> returns, the file read afterwards still holds the same value
  for that field, and the whole result (the flag and the files) is the one obtained when
  nothing is supplied for that field: the supplied value is ignored and the field reports
  no change.  With all three fields present the run reports no change and writes nothing.
\<close>

theorem setup_cog_config_keeps_existing:
  assumes roundtrip: "\<And>d. toml_load ext (toml_dump ext d) = Some d"
    and present: "fs path = Some content"
    and load: "toml_load ext content = Some config"
    and table: "map_of config ''changelog'' = Some (TTable kvs)"
  shows "(map_of kvs ''remote'' = Some v \<longrightarrow>
            (\<exists>c fs'. setup_cog_config ext path remote repository owner fs = (Inr c, fs')
               \<and> changelog_field ext (fs' path) ''remote'' = Some v)
            \<and> setup_cog_config ext path remote repository owner fs
                = setup_cog_config ext path None repository owner fs)
       \<and> (map_of kvs ''repository'' = Some v \<longrightarrow>
            (\<exists>c fs'. setup_cog_config ext path remote repository owner fs = (Inr c, fs')
               \<and> changelog_field ext (fs' path) ''repository'' = Some v)
            \<and> setup_cog_config ext path remote repository owner fs
                = setup_cog_config ext path remote None owner fs)
       \<and> (map_of kvs ''owner'' = Some v \<longrightarrow>
            (\<exists>c fs'. setup_cog_config ext path remote repository owner fs = (Inr c, fs')
               \<and> changelog_field ext (fs' path) ''owner'' = Some v)
            \<and> setup_cog_config ext path remote repository owner fs
                = setup_cog_config ext path remote repository None fs)
       \<and> (map_of kvs ''remote'' \<noteq> None \<and> map_of kvs ''repository'' \<noteq> None
            \<and> map_of kvs ''owner'' \<noteq> None \<longrightarrow>
            setup_cog_config ext path remote repository owner fs = (Inr False, fs))"
proof -
  have ens: "map_of (ensure_changelog config) ''changelog'' = Some (TTable kvs)"
    using table by (simp add: ensure_changelog_present)
  note run = setup_cog_config_table[where fs=fs and path=path, OF present load ens]
  have kept: "\<exists>c fs'. setup_cog_config ext path remote repository owner fs = (Inr c, fs')
               \<and> changelog_field ext (fs' path) k = Some v"
    if k: "map_of kvs k = Some v" for k
  proof -
    from setup_cog_config_on_table[where fs=fs and path=path, OF present load ens,
        of remote repository owner]
    obtain c kvs' where
      r: "setup_cog_config ext path remote repository owner fs =
         (Inr c, if c then fs(path \<mapsto> toml_dump ext
                    (AList.update ''changelog'' (TTable kvs') (ensure_changelog config))) else fs)"
      and keep: "\<forall>j v. map_of kvs j = Some v \<longrightarrow> map_of kvs' j = Some v"
      and unch: "\<not> c \<longrightarrow> kvs' = kvs"
      by (elim exE conjE)
    have shape: "map_of config ''changelog'' = None \<and> kvs = []
                \<or> map_of config ''changelog'' = Some (TTable kvs)"
      using table by simp
    have "changelog_field ext
           ((if c then fs(path \<mapsto> toml_dump ext
               (AList.update ''changelog'' (TTable kvs') (ensure_changelog config))) else fs) path) k
         = map_of kvs' k"
      by (rule read_back[where fs=fs and path=path, OF roundtrip present load shape unch])
    moreover have "map_of kvs' k = Some v" using keep k by blast
    ultimately show ?thesis using r by simp
  qed
  have indep1: "setup_cog_config ext path remote repository owner fs
                = setup_cog_config ext path None repository owner fs"
    if k: "map_of kvs ''remote'' = Some v"
    by (simp add: run set_missing_fields_def supplied_ignored[OF key_present[OF k]])
  have step1: "\<exists>k1 b1. set_field ''remote'' remote (TTable kvs, False) = Inr (TTable k1, b1)
                 \<and> fst ` set kvs \<subseteq> fst ` set k1"
    by (auto simp: set_field_table AList.dom_update split: option.splits)
  have indep2: "setup_cog_config ext path remote repository owner fs
                = setup_cog_config ext path remote None owner fs"
    if k: "map_of kvs ''repository'' = Some v"
  proof -
    from step1 obtain k1 b1 where
      s1: "set_field ''remote'' remote (TTable kvs, False) = Inr (TTable k1, b1)"
      and sub: "fst ` set kvs \<subseteq> fst ` set k1" by blast
    from key_present[OF k] sub have "''repository'' \<in> fst ` set k1" by blast
    then show ?thesis
      by (simp add: run set_missing_fields_def s1 supplied_ignored)
  qed
  have indep3: "setup_cog_config ext path remote repository owner fs
                = setup_cog_config ext path remote repository None fs"
    if k: "map_of kvs ''owner'' = Some v"
  proof -
    from step1 obtain k1 b1 where
      s1: "set_field ''remote'' remote (TTable kvs, False) = Inr (TTable k1, b1)"
      and sub1: "fst ` set kvs \<subseteq> fst ` set k1" by blast
    have "\<exists>k2 b2. set_field ''repository'' repository (TTable k1, b1) = Inr (TTable k2, b2)
                 \<and> fst ` set k1 \<subseteq> fst ` set k2"
      by (auto simp: set_field_table AList.dom_update split: option.splits)
    then obtain k2 b2 where
      s2: "set_field ''repository'' repository (TTable k1, b1) = Inr (TTable k2, b2)"
      and sub2: "fst ` set k1 \<subseteq> fst ` set k2" by blast
    from key_present[OF k] sub1 sub2 have "''owner'' \<in> fst ` set k2" by blast
    then show ?thesis
      by (simp add: run set_missing_fields_def s1 s2 supplied_ignored)
  qed
  have all3: "setup_cog_config ext path remote repository owner fs = (Inr False, fs)"
    if "map_of kvs ''remote'' \<noteq> None" "map_of kvs ''repository'' \<noteq> None"
       "map_of kvs ''owner'' \<noteq> None"
  proof -
    from that obtain a b c where "map_of kvs ''remote'' = Some a"
      "map_of kvs ''repository'' = Some b" "map_of kvs ''owner'' = Some c" by auto
    then have "''remote'' \<in> fst ` set kvs" "''repository'' \<in> fst ` set kvs"
      "''owner'' \<in> fst ` set kvs" by (simp_all add: key_present)
    then show ?thesis
      by (simp add: run set_missing_fields_def supplied_ignored)
  qed
  show ?thesis
    apply (intro conjI impI)
          apply (erule kept)
         apply (erule indep1)
        apply (erule kept)
       apply (erule indep2)
      apply (erule kept)
     apply (erule indep3)
    apply (elim conjE)
    apply (erule (2) all3)
    done
qed

text \<open>The file holds \<open>remote = "existing"\<close> and \<open>"new"\<close> is supplied.\<close>

theorem setup_cog_config_keeps_existing_witness:
  "(\<exists>c fs'. setup_cog_config quiet_ext ''cog.toml'' (Some ''new'') None None
                (example_fs (Some example_existing_config)) = (Inr c, fs')
            \<and> changelog_field quiet_ext (fs' ''cog.toml'') ''remote'' = Some (TStr ''existing''))
   \<and> setup_cog_config quiet_ext ''cog.toml'' (Some ''new'') None None
        (example_fs (Some example_existing_config))
      = setup_cog_config quiet_ext ''cog.toml'' None None None
        (example_fs (Some example_existing_config))
   \<and> fst (setup_cog_config quiet_ext ''cog.toml'' (Some ''new'') None None
        (example_fs (Some example_existing_config))) = Inr False"
proof -
  have rt: "\<And>d. toml_load quiet_ext (toml_dump quiet_ext d) = Some d"
    by (simp add: quiet_ext_def example_ext_def)
  have p: "example_fs (Some example_existing_config) ''cog.toml'' = Some example_existing_config"
    by (simp add: example_fs_def)
  have l: "toml_load quiet_ext example_existing_config = Some example_existing_config"
    by (simp add: quiet_ext_def example_ext_def)
  have t: "map_of example_existing_config ''changelog''
             = Some (TTable [(''remote'', TStr ''existing'')])"
    by (simp add: example_existing_config_def)
  have k: "map_of [(''remote'', TStr ''existing'')] ''remote'' = Some (TStr ''existing'')"
    by simp
  note all = setup_cog_config_keeps_existing[where ext=quiet_ext
      and fs="example_fs (Some example_existing_config)" and path="''cog.toml''"
      and v="TStr ''existing''" and remote="Some ''new''" and repository=None and owner=None,
      OF rt p l t]
  have flag: "fst (setup_cog_config quiet_ext ''cog.toml'' (Some ''new'') None None
        (example_fs (Some example_existing_config))) = Inr False"
    by code_simp
  note kept = conjunct1[OF all, THEN mp, OF k]
  show ?thesis
    by (rule conjI[OF conjunct1[OF kept] conjI[OF conjunct2[OF kept] flag]])
qed

section \<open>Config Synchronizer: what a run leaves untouched\<close>

lemma set_field_changed_table:
  assumes "set_field k supplied (cl, False) = Inr (cl', True)"
  shows "\<exists>kvs. cl = TTable kvs"
  using set_field_cases[OF assms] by auto

lemma set_field_table_stays:
  assumes "set_field k supplied (cl, b) = Inr (TTable kvs', b')"
  shows "\<exists>kvs. cl = TTable kvs"
  using set_field_cases[OF assms] by auto

lemma set_field_flag_mono:
  assumes "set_field k supplied (cl, True) = Inr (cl', b')"
  shows "b'"
  using set_field_cases[OF assms] by auto














section \<open>Orchestrator: how each step ends\<close>

lemma emit_fields [simp]:
  "files (emit e w) = files w" "clock (emit e w) = clock w"
  "environ (emit e w) = environ w" "user_input (emit e w) = user_input w"
  "trace (emit e w) = trace w @ [e]"
  by (simp_all add: emit_def)

lemma requests_simps [simp]:
  "requests [] = []"
  "requests (xs @ ys) = requests xs @ requests ys"
  "requests (Log l s # evs) = requests evs"
  "requests (Start_group s # evs) = requests evs"
  "requests (End_group # evs) = requests evs"
  "requests (Set_output k v # evs) = requests evs"
  "requests (Run_process cwd argv # evs) = requests evs"
  "requests (Api_create_release url token request # evs) = request # requests evs"
  by (simp_all add: requests_def)

lemma subprocess_run_state:
  "unchanged w (snd (subprocess_run ext cwd argv check as_text w))"
  "clock (snd (subprocess_run ext cwd argv check as_text w)) = Suc (clock w)"
  by (simp_all add: subprocess_run_def Let_def split: proc_outcome.splits option.splits)

lemma subprocess_run_trace:
  "trace (snd (subprocess_run ext cwd argv check as_text w)) = trace w @ [Run_process cwd argv]"
  by (simp add: subprocess_run_def Let_def split: proc_outcome.splits option.splits)

text \<open>What a \<open>cog\<close> command gives, by the way the process ends.\<close>

lemma run_cog_command_outcome:
  "fst (run_cog_command ext args wd w) =
     (case os_exec ext (clock w) (Some wd) (''cog'' # args) of
        Cannot_start \<Rightarrow> Inl OSError
      | Completed rc out_bytes err_bytes \<Rightarrow>
         (case (decode_text ext out_bytes, decode_text ext err_bytes) of
            (Some out, Some err) \<Rightarrow>
              if rc \<noteq> 0 then Inl (ReleaseWithCogError (CalledProcessError rc err))
              else Inr (py_strip out)
          | _ \<Rightarrow> Inl UnicodeDecodeError))"
  by (simp add: run_cog_command_def subprocess_run_def Let_def
      split: proc_outcome.splits option.splits)

lemma run_cog_command_state:
  "unchanged w (snd (run_cog_command ext args wd w))"
  "clock (snd (run_cog_command ext args wd w)) = Suc (clock w)"
  by (simp_all add: run_cog_command_def subprocess_run_def Let_def
      split: proc_outcome.splits option.splits)

lemma run_cog_command_trace:
  "\<exists>evs. trace (snd (run_cog_command ext args wd w))
            = trace w @ Run_process (Some wd) (''cog'' # args) # evs
     \<and> requests evs = []"
  by (simp add: run_cog_command_def subprocess_run_def Let_def
      split: proc_outcome.splits option.splits)

lemma get_cog_version_outcome:
  "fst (get_cog_version ext wd w) =
     (case os_exec ext (clock w) (Some wd) [''cog'', ''get-version''] of
        Cannot_start \<Rightarrow> Inl OSError
      | Completed rc out_bytes err_bytes \<Rightarrow>
         (case (decode_text ext out_bytes, decode_text ext err_bytes) of
            (Some out, Some err) \<Rightarrow> if rc \<noteq> 0 then Inr [] else Inr (py_strip out)
          | _ \<Rightarrow> Inl UnicodeDecodeError))"
  by (simp add: get_cog_version_def run_cog_command_def subprocess_run_def Let_def
      split: proc_outcome.splits option.splits)

lemma get_cog_version_state:
  "unchanged w (snd (get_cog_version ext wd w))"
  "clock (snd (get_cog_version ext wd w)) = Suc (clock w)"
  by (simp_all add: get_cog_version_def run_cog_command_def subprocess_run_def Let_def
      split: proc_outcome.splits option.splits)

lemma git_diagnostics_state:
  "unchanged w (snd (git_diagnostics ext wd w))"
proof -
  obtain r1 w1 where s1: "subprocess_run ext (Some wd) [''git'', ''status''] False True w = (r1, w1)"
    by (cases "subprocess_run ext (Some wd) [''git'', ''status''] False True w")
  from subprocess_run_state(1)[where w=w and ext=ext and cwd="Some wd" and argv="[''git'', ''status'']" and check=False and as_text=True] s1
  have u1: "unchanged w w1" by simp
  show ?thesis
  proof (cases r1)
    case (Inl e)
    with s1 u1 show ?thesis by (simp add: git_diagnostics_def)
  next
    case (Inr t)
    obtain rc out err where t: "t = (rc, out, err)" by (cases t)
    let ?w2 = "if out \<noteq> [] then emit (Log Info ''Git status: {status_result.stdout}'') w1 else w1"
    have u2: "unchanged w ?w2" using u1 by simp
    obtain r3 w3 where s3: "subprocess_run ext (Some wd) [''git'', ''diff''] False True ?w2 = (r3, w3)"
      by (cases "subprocess_run ext (Some wd) [''git'', ''diff''] False True ?w2")
    from subprocess_run_state(1)[where w="?w2" and ext=ext and cwd="Some wd" and argv="[''git'', ''diff'']" and check=False and as_text=True] s3 u2
    have u3: "unchanged w w3" by simp
    show ?thesis
    proof (cases r3)
      case (Inl e)
      with s1 Inr t s3 u3 show ?thesis by (simp add: git_diagnostics_def Let_def)
    next
      case (Inr t')
      obtain rc' out' err' where t': "t' = (rc', out', err')" by (cases t')
      from s1 \<open>r1 = Inr t\<close> t s3 Inr t' u3 show ?thesis
        by (simp add: git_diagnostics_def Let_def)
    qed
  qed
qed

lemma bump_body_state:
  "unchanged w (snd (bump_body ext inputs wd dry_run w))"
proof -
  let ?w1 = "emit (Log Info ''Running: cog {args}'') w"
  obtain r w2 where
    s2: "subprocess_run ext (Some wd) (''cog'' # bump_args inputs dry_run) False True ?w1 = (r, w2)"
    by (cases "subprocess_run ext (Some wd) (''cog'' # bump_args inputs dry_run) False True ?w1")
  from subprocess_run_state(1)[where w="?w1" and ext=ext and cwd="Some wd" and argv="''cog'' # bump_args inputs dry_run" and check=False and as_text=True]
    s2
  have u2: "unchanged w w2" by simp
  show ?thesis
  proof (cases r)
    case (Inl e)
    with s2 u2 show ?thesis by (simp add: bump_body_def Let_def)
  next
    case (Inr t)
    obtain rc out err where t: "t = (rc, out, err)" by (cases t)
    let ?w3 = "(if rc = 0 then
                       (let w' = emit (Log Info ''Version bump successful'') w2
                        in if out \<noteq> [] then emit (Log Info ''Output: {result.stdout}'') w' else w')
                     else
                       (let w' = emit (Log Warning
                               ''Version bump returned non-zero exit code: {result.returncode}'') w2
                        in if err \<noteq> [] then emit (Log Warning ''Error output: {result.stderr}'') w'
                           else w'))"
    have u3: "unchanged w ?w3" using u2 by (simp add: Let_def)
    obtain r4 w4 where g: "git_diagnostics ext wd ?w3 = (r4, w4)"
      by (cases "git_diagnostics ext wd ?w3")
    from git_diagnostics_state[where w="?w3" and ext=ext and wd=wd] g u3
    have u4: "unchanged w w4" by simp
    show ?thesis
      using s2 Inr t g u4
      by (simp add: bump_body_def Let_def split: sum.splits exn.splits)
  qed
qed

lemma bump_version_returns:
  "\<exists>ok. fst (bump_version ext inputs wd dry_run w) = Inr ok"
  by (cases "bump_body ext inputs wd dry_run (emit (Start_group ''Semver release'') w)")
     (auto simp: bump_version_def split: sum.splits)

lemma bump_version_state:
  "unchanged w (snd (bump_version ext inputs wd dry_run w))"
  using bump_body_state[where w="emit (Start_group ''Semver release'') w" and ext=ext and inputs=inputs and wd=wd and dry_run=dry_run]
  by (cases "bump_body ext inputs wd dry_run (emit (Start_group ''Semver release'') w)")
     (simp add: bump_version_def split: sum.splits)

lemma get_tag_prefix_returns:
  "\<exists>v w'. get_tag_prefix ext w = (Inr v, w')"
  by (cases "read_tag_prefix ext w") (simp_all add: get_tag_prefix_def)

lemma get_tag_prefix_state:
  "unchanged w (snd (get_tag_prefix ext w))"
  "clock (snd (get_tag_prefix ext w)) = clock w"
  by (cases "read_tag_prefix ext w"; simp add: get_tag_prefix_def)+

lemma get_tag_prefix_files:
  "files w' = files w \<Longrightarrow> fst (get_tag_prefix ext w') = fst (get_tag_prefix ext w)"
  by (simp add: get_tag_prefix_def read_tag_prefix_def split: option.splits)

lemma get_tag_prefix_default:
  assumes "files w ''cog.toml'' = None
     \<or> (\<exists>content. files w ''cog.toml'' = Some content
          \<and> (toml_load ext content = None
              \<or> (\<exists>config. toml_load ext content = Some config
                    \<and> map_of config ''tag_prefix'' = None)))"
  shows "fst (get_tag_prefix ext w) = Inr (TStr [])"
  using assms
  by (auto simp: get_tag_prefix_def read_tag_prefix_def split: option.splits)

lemma changelog_args_returns:
  "\<exists>args w'. changelog_args ext inputs remote owner repo version w = (Inr args, w')
      \<and> clock w' = clock w \<and> unchanged w w'"
proof (cases "version = []")
  case True
  then show ?thesis by (simp add: changelog_args_def Let_def)
next
  case False
  from get_tag_prefix_returns[of ext w] obtain v w1 where
    g: "get_tag_prefix ext w = (Inr v, w1)" by blast
  from g get_tag_prefix_state[where w=w and ext=ext] have
    "clock w1 = clock w" "unchanged w w1" by simp_all
  with False g show ?thesis by (simp add: changelog_args_def Let_def)
qed

lemma changelog_args_files:
  "files w' = files w \<Longrightarrow>
     fst (changelog_args ext inputs remote owner repo version w')
       = fst (changelog_args ext inputs remote owner repo version w)"
proof -
  assume f: "files w' = files w"
  from get_tag_prefix_returns[of ext w] obtain v w1 where
    g: "get_tag_prefix ext w = (Inr v, w1)" by blast
  from get_tag_prefix_returns[of ext w'] obtain v' w1' where
    g': "get_tag_prefix ext w' = (Inr v', w1')" by blast
  from get_tag_prefix_files[OF f, of ext] g g' have "v' = v" by simp
  with g g' show ?thesis by (simp add: changelog_args_def Let_def)
qed

lemma changelog_args_at:
  assumes "version \<noteq> []"
  shows "\<exists>args tag_prefix. fst (get_tag_prefix ext w) = Inr tag_prefix
      \<and> fst (changelog_args ext inputs remote owner repo version w) =
            Inr (args @ [''--at'', full_tag ext tag_prefix version])"
proof -
  from get_tag_prefix_returns[of ext w] obtain v w1 where
    g: "get_tag_prefix ext w = (Inr v, w1)" by blast
  with assms show ?thesis by (simp add: changelog_args_def Let_def)
qed

text \<open>What \<open>generate_changelog\<close> gives, by the way the command it issues ends.\<close>

lemma generate_changelog_outcome:
  "\<exists>args. fst (changelog_args ext inputs remote owner repo version w) = Inr args
     \<and> fst (generate_changelog ext inputs remote owner repo version w) =
        (case os_exec ext (clock w) (Some ''.'') (''cog'' # args) of
           Cannot_start \<Rightarrow> Inl OSError
         | Completed rc out_bytes err_bytes \<Rightarrow>
            (case (decode_text ext out_bytes, decode_text ext err_bytes) of
               (Some out, Some err) \<Rightarrow> if rc \<noteq> 0 then Inr [] else Inr (py_strip out)
             | _ \<Rightarrow> Inl UnicodeDecodeError))
     \<and> (\<exists>evs. trace (snd (generate_changelog ext inputs remote owner repo version w))
                = trace w @ evs
           \<and> Run_process (Some ''.'') (''cog'' # args) \<in> set evs \<and> requests evs = [])"
proof -
  let ?w0 = "emit (Start_group ''Generate changelog'') w"
  from changelog_args_returns[of ext inputs remote owner repo version ?w0]
  obtain args w1 where a: "changelog_args ext inputs remote owner repo version ?w0 = (Inr args, w1)"
    and c1: "clock w1 = clock w" by auto
  have a': "fst (changelog_args ext inputs remote owner repo version w) = Inr args"
    using changelog_args_files[where w'="?w0" and w=w and ext=ext and inputs=inputs and remote=remote and owner=owner and repo=repo and version=version] a by simp
  obtain evs1 where t1: "trace w1 = trace w @ evs1" and q1: "requests evs1 = []"
  proof (cases "version = []")
    case True
    with a have "w1 = ?w0" by (simp add: changelog_args_def Let_def)
    then show ?thesis using that[of "[Start_group ''Generate changelog'']"] by simp
  next
    case False
    from get_tag_prefix_returns[of ext ?w0] obtain v w' where
      g: "get_tag_prefix ext ?w0 = (Inr v, w')" by blast
    with False a have w1: "w1 = w'" by (simp add: changelog_args_def Let_def)
    show ?thesis
    proof (cases "read_tag_prefix ext ?w0")
      case (Inl e)
      with g w1 have "trace w1 = trace w @ [Start_group ''Generate changelog'',
          Log Info ''No tag_prefix found in cog.toml, using empty prefix'']"
        by (auto simp: get_tag_prefix_def)
      then show ?thesis using that by simp
    next
      case (Inr x)
      with g w1 have "trace w1 = trace w @ [Start_group ''Generate changelog'']"
        by (auto simp: get_tag_prefix_def)
      then show ?thesis using that by simp
    qed
  qed
  let ?w2 = "emit (Log Info ''Generating changelog with: cog {args}'') w1"
  have c2: "clock ?w2 = clock w" using c1 by simp
  obtain r w3 where r: "run_cog_command ext args ''.'' ?w2 = (r, w3)"
    by (cases "run_cog_command ext args ''.'' ?w2")
  from run_cog_command_outcome[of ext args "''.''" ?w2] r c2
  have ro: "r = (case os_exec ext (clock w) (Some ''.'') (''cog'' # args) of
        Cannot_start \<Rightarrow> Inl OSError
      | Completed rc out_bytes err_bytes \<Rightarrow>
         (case (decode_text ext out_bytes, decode_text ext err_bytes) of
            (Some out, Some err) \<Rightarrow>
              if rc \<noteq> 0 then Inl (ReleaseWithCogError (CalledProcessError rc err))
              else Inr (py_strip out)
          | _ \<Rightarrow> Inl UnicodeDecodeError))" by simp
  from run_cog_command_trace[of ext args "''.''" ?w2] r
  obtain evs3 where t3: "trace w3 = trace ?w2 @ Run_process (Some ''.'') (''cog'' # args) # evs3"
    and q3: "requests evs3 = []" by auto
  have res: "fst (generate_changelog ext inputs remote owner repo version w) =
        (case os_exec ext (clock w) (Some ''.'') (''cog'' # args) of
           Cannot_start \<Rightarrow> Inl OSError
         | Completed rc out_bytes err_bytes \<Rightarrow>
            (case (decode_text ext out_bytes, decode_text ext err_bytes) of
               (Some out, Some err) \<Rightarrow> if rc \<noteq> 0 then Inr [] else Inr (py_strip out)
             | _ \<Rightarrow> Inl UnicodeDecodeError))"
    by (simp add: generate_changelog_def changelog_body_def a r ro
        split: proc_outcome.splits option.splits)
  have "\<exists>evs4. trace (snd (generate_changelog ext inputs remote owner repo version w))
                = trace w3 @ evs4 \<and> requests evs4 = []"
    by (simp add: generate_changelog_def changelog_body_def a r split: sum.splits exn.splits)
  then obtain evs4 where
    t4: "trace (snd (generate_changelog ext inputs remote owner repo version w)) = trace w3 @ evs4"
    and q4: "requests evs4 = []" by blast
  let ?evs = "evs1 @ Log Info ''Generating changelog with: cog {args}''
                # Run_process (Some ''.'') (''cog'' # args) # evs3 @ evs4"
  have tr: "trace (snd (generate_changelog ext inputs remote owner repo version w))
                = trace w @ ?evs"
    using t4 t3 t1 by simp
  have "Run_process (Some ''.'') (''cog'' # args) \<in> set ?evs \<and> requests ?evs = []"
    using q1 q3 q4 by simp
  with a' res tr show ?thesis by blast
qed

lemma generate_changelog_state:
  "unchanged w (snd (generate_changelog ext inputs remote owner repo version w))"
proof -
  let ?w0 = "emit (Start_group ''Generate changelog'') w"
  from changelog_args_returns[of ext inputs remote owner repo version ?w0]
  obtain args w1 where a: "changelog_args ext inputs remote owner repo version ?w0 = (Inr args, w1)"
    and u1: "unchanged ?w0 w1" by auto
  let ?w2 = "emit (Log Info ''Generating changelog with: cog {args}'') w1"
  obtain r w3 where r: "run_cog_command ext args ''.'' ?w2 = (r, w3)"
    by (cases "run_cog_command ext args ''.'' ?w2")
  from run_cog_command_state(1)[where w="?w2" and ext=ext and args=args and wd="''.''"] r u1
  have "unchanged w w3" by simp
  then show ?thesis
    by (simp add: generate_changelog_def changelog_body_def a r split: sum.splits exn.splits)
qed

lemma release_attempt_state:
  "files (snd (release_attempt ext version changelog owner repo w)) = files w
   \<and> environ (snd (release_attempt ext version changelog owner repo w)) = environ w"
  by (simp add: release_attempt_def Let_def split: option.splits api_outcome.splits)

lemma create_forgejo_release_returns:
  "\<exists>r w'. create_forgejo_release ext version changelog owner repo w = (Inr r, w')"
  by (cases "release_attempt ext version changelog owner repo
                (emit (Start_group ''Create Forgejo release'') w)")
     (auto simp: create_forgejo_release_def split: sum.splits)

lemma create_forgejo_release_state:
  "files (snd (create_forgejo_release ext version changelog owner repo w)) = files w
   \<and> environ (snd (create_forgejo_release ext version changelog owner repo w)) = environ w"
  using release_attempt_state[of ext version changelog owner repo
      "emit (Start_group ''Create Forgejo release'') w"]
  by (cases "release_attempt ext version changelog owner repo
                (emit (Start_group ''Create Forgejo release'') w)")
     (auto simp: create_forgejo_release_def split: sum.splits)






section \<open>Release Publisher: no exception escapes\<close>



text \<open>The forge is contacted at most once, with the request built from the arguments.\<close>

lemma release_attempt_trace:
  "\<exists>evs. trace (snd (release_attempt ext version changelog owner repo w)) = trace w @ evs
     \<and> (\<forall>url token request. Api_create_release url token request \<in> set evs \<longrightarrow>
           request = \<lparr> rq_owner = owner, rq_repo = repo, rq_tag_name = version,
                       rq_name = version, rq_body = changelog \<rparr>)
     \<and> (\<forall>s. fst (release_attempt ext version changelog owner repo w) = Inr (Some s) \<longrightarrow>
           (\<exists>url token html_url ident.
              Api_create_release url token
                 \<lparr> rq_owner = owner, rq_repo = repo, rq_tag_name = version,
                   rq_name = version, rq_body = changelog \<rparr> \<in> set evs
            \<and> s = json_dumps (JObj [(''tag_name'', JStr version), (''name'', JStr version),
                      (''body'', JStr changelog), (''html_url'', html_url), (''id'', ident)])))"
proof (cases "py_or_opt (environ w ''FORGEJO_TOKEN'') None")
  case None
  then show ?thesis by (simp add: release_attempt_def)
next
  case (Some token)
  note tok = Some
  show ?thesis
  proof (cases "py_or_opt (py_or_opt (environ w ''FORGEJO_SERVER_URL'')
                            (environ w ''GITHUB_SERVER_URL'')) None")
    case None
    with tok show ?thesis by (simp add: release_attempt_def)
  next
    case (Some url)
    let ?server = "if starts_with ''http://'' url \<or> starts_with ''https://'' url
                   then url else ''https://'' @ url"
    let ?rq = "\<lparr> rq_owner = owner, rq_repo = repo, rq_tag_name = version,
                 rq_name = version, rq_body = changelog \<rparr>"
    show ?thesis
    proof (cases "forge_create_release ext (clock w) ?server token ?rq")
      case (Api_raises e)
      with tok Some show ?thesis
        by (simp add: release_attempt_def Let_def del: json_dumps.simps)
    next
      case (Api_response h i)
      with tok Some show ?thesis
        by (simp add: release_attempt_def Let_def del: json_dumps.simps) blast
    qed
  qed
qed

lemma create_forgejo_release_trace:
  "\<exists>evs. trace (snd (create_forgejo_release ext version changelog owner repo w)) = trace w @ evs
     \<and> (\<forall>url token request. Api_create_release url token request \<in> set evs \<longrightarrow>
           request = \<lparr> rq_owner = owner, rq_repo = repo, rq_tag_name = version,
                       rq_name = version, rq_body = changelog \<rparr>)
     \<and> (\<forall>s. fst (create_forgejo_release ext version changelog owner repo w) = Inr (Some s) \<longrightarrow>
           (\<exists>url token html_url ident.
              Api_create_release url token
                 \<lparr> rq_owner = owner, rq_repo = repo, rq_tag_name = version,
                   rq_name = version, rq_body = changelog \<rparr> \<in> set evs
            \<and> s = json_dumps (JObj [(''tag_name'', JStr version), (''name'', JStr version),
                      (''body'', JStr changelog), (''html_url'', html_url), (''id'', ident)])))"
proof (cases "version = []")
  case True
  then show ?thesis by (simp add: create_forgejo_release_def)
next
  case False
  let ?w0 = "emit (Start_group ''Create Forgejo release'') w"
  let ?rq = "\<lparr> rq_owner = owner, rq_repo = repo, rq_tag_name = version,
               rq_name = version, rq_body = changelog \<rparr>"
  from release_attempt_trace[of ext version changelog owner repo ?w0]
  obtain evs where
    tr: "trace (snd (release_attempt ext version changelog owner repo ?w0)) = trace ?w0 @ evs"
    and sent: "\<forall>url token request. Api_create_release url token request \<in> set evs \<longrightarrow>
           request = ?rq"
    and made: "\<forall>s. fst (release_attempt ext version changelog owner repo ?w0) = Inr (Some s) \<longrightarrow>
           (\<exists>url token html_url ident.
              Api_create_release url token ?rq \<in> set evs
            \<and> s = json_dumps (JObj [(''tag_name'', JStr version), (''name'', JStr version),
                      (''body'', JStr changelog), (''html_url'', html_url), (''id'', ident)]))"
    by (elim exE conjE)
  obtain r w1 where ra: "release_attempt ext version changelog owner repo ?w0 = (r, w1)"
    by (cases "release_attempt ext version changelog owner repo ?w0")
  from tr ra have tr1: "trace w1 = trace w @ (Start_group ''Create Forgejo release'' # evs)"
    by simp
  show ?thesis
  proof (cases r)
    case (Inl e)
    let ?evs = "Start_group ''Create Forgejo release'' # evs
                 @ [Log Error ''Failed to create Forgejo release: {e}'', End_group]"
    have t: "trace (snd (create_forgejo_release ext version changelog owner repo w))
               = trace w @ ?evs"
      using False ra Inl tr1 by (simp add: create_forgejo_release_def)
    have f: "fst (create_forgejo_release ext version changelog owner repo w) = Inr None"
      using False ra Inl by (simp add: create_forgejo_release_def)
    have s: "\<forall>url token request. Api_create_release url token request \<in> set ?evs \<longrightarrow>
           request = ?rq"
      using sent by simp
    show ?thesis
      apply (rule exI[of _ ?evs])
      apply (intro conjI)
        apply (rule t)
       apply (rule s)
      apply (simp only: f)
      apply simp
      done
  next
    case (Inr v)
    let ?evs = "Start_group ''Create Forgejo release'' # evs"
    have t: "trace (snd (create_forgejo_release ext version changelog owner repo w))
               = trace w @ ?evs"
      using False ra Inr tr1 by (simp add: create_forgejo_release_def)
    have f: "fst (create_forgejo_release ext version changelog owner repo w)
               = fst (release_attempt ext version changelog owner repo ?w0)"
      using False ra Inr by (simp add: create_forgejo_release_def)
    have s: "\<forall>url token request. Api_create_release url token request \<in> set ?evs \<longrightarrow>
           request = ?rq"
      using sent by simp
    have m: "\<forall>s. fst (create_forgejo_release ext version changelog owner repo w) = Inr (Some s) \<longrightarrow>
           (\<exists>url token html_url ident.
              Api_create_release url token ?rq \<in> set ?evs
            \<and> s = json_dumps (JObj [(''tag_name'', JStr version), (''name'', JStr version),
                      (''body'', JStr changelog), (''html_url'', html_url), (''id'', ident)]))"
      unfolding f using made by (simp del: json_dumps.simps)
    show ?thesis
      apply (rule exI[of _ ?evs])
      apply (intro conjI)
        apply (rule t)
       apply (rule s)
      apply (rule m)
      done
  qed
qed


section \<open>Orchestrator: the steps around the release\<close>

lemma requests_member:
  "Api_create_release url token request \<in> set evs \<Longrightarrow> request \<in> set (requests evs)"
  by (induction evs) (auto simp: requests_def)

lemma requests_sent:
  "request \<in> set (requests evs) \<Longrightarrow> \<exists>url token. Api_create_release url token request \<in> set evs"
proof (induction evs)
  case Nil
  then show ?case by simp
next
  case (Cons e evs)
  then show ?case by (cases e) auto
qed

lemma publish_step_returns:
  "fst (publish_step ext inputs current_version changelog owner repo w) = Inr ()"
proof (cases "py_lower (i_create_forgejo_release inputs) = ''true'' \<and> current_version \<noteq> []")
  case False
  then show ?thesis by (auto simp: publish_step_def)
next
  case True
  from create_forgejo_release_returns[of ext current_version changelog owner repo w]
  obtain r w1 where c: "create_forgejo_release ext current_version changelog owner repo w = (Inr r, w1)"
    by blast
  show ?thesis
    using True c by (cases r) (simp_all add: publish_step_def del: json_dumps.simps)
qed

lemma publish_step_state:
  "files (snd (publish_step ext inputs current_version changelog owner repo w)) = files w"
proof (cases "py_lower (i_create_forgejo_release inputs) = ''true'' \<and> current_version \<noteq> []")
  case False
  then show ?thesis by (auto simp: publish_step_def)
next
  case True
  from create_forgejo_release_returns[of ext current_version changelog owner repo w]
  obtain r w1 where c: "create_forgejo_release ext current_version changelog owner repo w = (Inr r, w1)"
    by blast
  from create_forgejo_release_state[of ext current_version changelog owner repo w] c
  have "files w1 = files w" by simp
  then show ?thesis
    using True c by (cases r) (simp_all add: publish_step_def del: json_dumps.simps)
qed

text \<open>Every request that the publishing step sends carries the version it was given.\<close>

lemma publish_step_trace:
  "\<exists>evs. trace (snd (publish_step ext inputs current_version changelog owner repo w)) = trace w @ evs
     \<and> (\<forall>request \<in> set (requests evs).
           request = \<lparr> rq_owner = owner, rq_repo = repo, rq_tag_name = current_version,
                       rq_name = current_version, rq_body = changelog \<rparr>)"
proof (cases "py_lower (i_create_forgejo_release inputs) = ''true'' \<and> current_version \<noteq> []")
  case False
  then have "trace (snd (publish_step ext inputs current_version changelog owner repo w))
               = trace w @ []"
    by (auto simp: publish_step_def)
  then show ?thesis by (intro exI[of _ "[]"]) simp
next
  case True
  let ?rq = "\<lparr> rq_owner = owner, rq_repo = repo, rq_tag_name = current_version,
               rq_name = current_version, rq_body = changelog \<rparr>"
  from create_forgejo_release_trace[of ext current_version changelog owner repo w]
  obtain evs where
    tr: "trace (snd (create_forgejo_release ext current_version changelog owner repo w))
           = trace w @ evs"
    and sent: "\<forall>url token request. Api_create_release url token request \<in> set evs \<longrightarrow>
           request = ?rq"
    by (elim exE conjE)
  have all: "\<forall>request \<in> set (requests evs). request = ?rq"
    using sent requests_sent[of _ evs] by blast
  obtain r w1 where c: "create_forgejo_release ext current_version changelog owner repo w = (r, w1)"
    by (cases "create_forgejo_release ext current_version changelog owner repo w")
  from tr c have t1: "trace w1 = trace w @ evs" by simp
  have "\<exists>evs'. trace (snd (publish_step ext inputs current_version changelog owner repo w))
                  = trace w1 @ evs' \<and> requests evs' = []"
    using True c
    by (simp add: publish_step_def del: json_dumps.simps split: sum.splits option.splits)
  then obtain evs' where
    t2: "trace (snd (publish_step ext inputs current_version changelog owner repo w)) = trace w1 @ evs'"
    and q: "requests evs' = []" by blast
  have t: "trace (snd (publish_step ext inputs current_version changelog owner repo w))
             = trace w @ (evs @ evs')"
    using t1 t2 by simp
  have "\<forall>request \<in> set (requests (evs @ evs')). request = ?rq"
    using all q by simp
  with t show ?thesis by blast
qed

lemma determine_dry_run_mode_state:
  "unchanged w (snd (determine_dry_run_mode inputs w))"
  by (simp add: determine_dry_run_mode_def Let_def split: prod.splits if_splits)

lemma set_default_values_state:
  "unchanged w (snd (set_default_values inputs w))"
  by (simp add: set_default_values_def Let_def)

lemma get_action_inputs_state:
  "unchanged w (snd (get_action_inputs w))"
  "user_input (snd (get_action_inputs w)) = user_input w"
  by (simp_all add: get_action_inputs_def)

lemma resolve_inputs_unfold:
  "resolve_inputs w =
     (let w0 = emit (Log Info ''Starting release-with-cog Python implementation'') w;
          inputs = fst (get_action_inputs w0);
          w1 = snd (get_action_inputs w0);
          coordinates = fst (set_default_values inputs w1);
          w2 = snd (set_default_values inputs w1)
      in ((inputs, coordinates, fst (determine_dry_run_mode inputs w2)),
          snd (determine_dry_run_mode inputs w2)))"
  by (simp add: resolve_inputs_def Let_def case_prod_beta)

lemma resolve_inputs_state:
  "unchanged w (snd (resolve_inputs w))"
  by (simp add: resolve_inputs_unfold Let_def determine_dry_run_mode_state
      set_default_values_state get_action_inputs_state)

lemma commit_and_push_state:
  "files (snd (commit_and_push ext w)) = files w
   \<and> requests (trace (snd (commit_and_push ext w))) = requests (trace w)"
proof -
  let ?c = "[''git'', ''commit'', ''-m'',
              ''chore: update cog.toml with remote/owner/repo [skip ci]'']"
  obtain r1 w1 where s1: "subprocess_run ext None ?c True False w = (r1, w1)"
    by (cases "subprocess_run ext None ?c True False w")
  from subprocess_run_state(1)[where w=w and ext=ext and cwd=None and argv="?c" and check=True
      and as_text=False] s1
  have u1: "unchanged w w1" by simp
  show ?thesis
  proof (cases r1)
    case (Inl e)
    with s1 u1 show ?thesis by (simp add: commit_and_push_def)
  next
    case (Inr v)
    let ?p = "[''git'', ''push'', ''origin'', ''HEAD'']"
    obtain r2 w2 where s2: "subprocess_run ext None ?p True False w1 = (r2, w2)"
      by (cases "subprocess_run ext None ?p True False w1")
    from subprocess_run_state(1)[where w=w1 and ext=ext and cwd=None and argv="?p" and check=True
        and as_text=False] s2 u1
    have u2: "unchanged w w2" by simp
    show ?thesis using s1 Inr s2 u2 by (cases r2) (simp_all add: commit_and_push_def)
  qed
qed

text \<open>The files that the synchronization leaves are those left by \<open>setup_cog_config\<close>; no
  request is sent to the forge.\<close>

lemma sync_body_files:
  "files (snd (sync_body ext remote owner repo w)) =
     snd (setup_cog_config ext ''cog.toml'' (Some remote) (Some repo) (Some owner) (files w))
   \<and> requests (trace (snd (sync_body ext remote owner repo w))) = requests (trace w)"
proof -
  let ?w1 = "w\<lparr>environ := (environ w)(''COG_REMOTE'' \<mapsto> remote, ''COG_OWNER'' \<mapsto> owner,
                                          ''COG_REPOSITORY'' \<mapsto> repo)\<rparr>"
  obtain r fs where s: "setup_cog_config ext ''cog.toml'' (Some remote) (Some repo) (Some owner) (files w) = (r, fs)"
    by (cases "setup_cog_config ext ''cog.toml'' (Some remote) (Some repo) (Some owner) (files w)")
  show ?thesis
  proof (cases r)
    case (Inl e)
    with s show ?thesis by (simp add: sync_body_def)
  next
    case (Inr changes_made)
    note cm = Inr
    show ?thesis
    proof (cases changes_made)
      case False
      with s cm show ?thesis by (simp add: sync_body_def)
    next
      case True
      let ?w3 = "emit (Log Info ''Added missing changelog configuration values to cog.toml'')
                   (?w1\<lparr>files := fs\<rparr>)"
      have f3: "files ?w3 = fs \<and> requests (trace ?w3) = requests (trace w)" by simp
      obtain r4 w4 where s4: "subprocess_run ext None [''git'', ''add'', ''cog.toml''] True False ?w3 = (r4, w4)"
        by (cases "subprocess_run ext None [''git'', ''add'', ''cog.toml''] True False ?w3")
      from subprocess_run_state(1)[where w="?w3" and ext=ext and cwd=None
          and argv="[''git'', ''add'', ''cog.toml'']" and check=True and as_text=False] s4 f3
      have f4: "files w4 = fs \<and> requests (trace w4) = requests (trace w)" by simp
      show ?thesis
      proof (cases r4)
        case (Inl e)
        with s cm True s4 f4 show ?thesis by (simp add: sync_body_def)
      next
        case (Inr v4)
        note r4 = Inr
        let ?d = "[''git'', ''diff'', ''--cached'', ''--quiet'']"
        obtain r5 w5 where s5: "subprocess_run ext None ?d False False w4 = (r5, w5)"
          by (cases "subprocess_run ext None ?d False False w4")
        from subprocess_run_state(1)[where w=w4 and ext=ext and cwd=None and argv="?d"
            and check=False and as_text=False] s5 f4
        have f5: "files w5 = fs \<and> requests (trace w5) = requests (trace w)" by simp
        show ?thesis
        proof (cases r5)
          case (Inl e)
          with s cm True s4 r4 s5 f5 show ?thesis by (simp add: sync_body_def)
        next
          case (Inr t)
          obtain rc out err where t: "t = (rc, out, err)" by (cases t)
          obtain r6 w6 where s6: "commit_and_push ext w5 = (r6, w6)"
            by (cases "commit_and_push ext w5")
          from commit_and_push_state[of ext w5] s6 f5
          have f6: "files w6 = fs \<and> requests (trace w6) = requests (trace w)" by simp
          show ?thesis
            using s cm True s4 r4 s5 Inr t s6 f5 f6
            by (simp add: sync_body_def split: sum.splits exn.splits)
        qed
      qed
    qed
  qed
qed

lemma setup_cog_configuration_result:
  "fst (setup_cog_configuration ext inputs remote owner repo w) = Inr ()
   \<or> (\<exists>e. fst (setup_cog_configuration ext inputs remote owner repo w) = Inl (ReleaseWithCogError e))"
proof (cases "py_lower (i_update_cog_toml inputs) \<noteq> ''true''")
  case True
  then show ?thesis by (simp add: setup_cog_configuration_def)
next
  case False
  obtain r w1 where s: "sync_body ext remote owner repo
                   (emit (Start_group ''Verify/set cog config values'') w) = (r, w1)"
    by (cases "sync_body ext remote owner repo
                   (emit (Start_group ''Verify/set cog config values'') w)")
  with False show ?thesis
    by (cases r) (simp_all add: setup_cog_configuration_def)
qed

lemma setup_cog_configuration_files:
  assumes "py_lower (i_update_cog_toml inputs) = ''true''"
  shows "files (snd (setup_cog_configuration ext inputs remote owner repo w)) =
     snd (setup_cog_config ext ''cog.toml'' (Some remote) (Some repo) (Some owner) (files w))"
proof -
  let ?w0 = "emit (Start_group ''Verify/set cog config values'') w"
  obtain r w1 where s: "sync_body ext remote owner repo ?w0 = (r, w1)"
    by (cases "sync_body ext remote owner repo ?w0")
  from sync_body_files[of ext remote owner repo ?w0] s
  have "files w1 = snd (setup_cog_config ext ''cog.toml'' (Some remote) (Some repo) (Some owner) (files w))"
    by simp
  with assms s show ?thesis
    by (cases r) (simp_all add: setup_cog_configuration_def)
qed

lemma setup_cog_configuration_requests:
  "requests (trace (snd (setup_cog_configuration ext inputs remote owner repo w)))
     = requests (trace w)"
proof (cases "py_lower (i_update_cog_toml inputs) \<noteq> ''true''")
  case True
  then show ?thesis by (simp add: setup_cog_configuration_def)
next
  case False
  let ?w0 = "emit (Start_group ''Verify/set cog config values'') w"
  obtain r w1 where s: "sync_body ext remote owner repo ?w0 = (r, w1)"
    by (cases "sync_body ext remote owner repo ?w0")
  from sync_body_files[of ext remote owner repo ?w0] s
  have "requests (trace w1) = requests (trace w)" by simp
  with False s show ?thesis
    by (cases r) (simp_all add: setup_cog_configuration_def)
qed

lemma main_body_unfold:
  "main_body ext w =
     (case sync_step ext w of
        (Inl e, w2) \<Rightarrow> (Inl e, w2)
      | (Inr u, w2) \<Rightarrow>
          (case fst (resolve_inputs w) of (inputs, (remote, owner, repo), dry_run) \<Rightarrow>
             release_steps ext inputs remote owner repo dry_run w2))"
  by (simp add: main_body_def sync_step_def split: prod.splits)

lemma sync_step_result:
  "fst (sync_step ext w) = Inr ()
   \<or> (\<exists>e. fst (sync_step ext w) = Inl (ReleaseWithCogError e))"
proof -
  obtain inputs remote owner repo dry_run w1 where
    r: "resolve_inputs w = ((inputs, (remote, owner, repo), dry_run), w1)"
    by (metis prod.exhaust)
  from setup_cog_configuration_result[of ext inputs remote owner repo w1] r
  show ?thesis by (simp add: sync_step_def)
qed

lemma sync_step_requests:
  "requests (trace (snd (sync_step ext w))) = requests (trace w)"
proof -
  obtain inputs remote owner repo dry_run w1 where
    r: "resolve_inputs w = ((inputs, (remote, owner, repo), dry_run), w1)"
    by (metis prod.exhaust)
  from resolve_inputs_state[of w] r have "requests (trace w1) = requests (trace w)" by simp
  with setup_cog_configuration_requests[of ext inputs remote owner repo w1] r
  show ?thesis by (simp add: sync_step_def)
qed

lemma release_steps_state:
  "files (snd (release_steps ext inputs remote owner repo dry_run w)) = files w"
proof -
  let ?wd = "i_working_directory inputs"
  obtain r1 w1 where s1: "get_cog_version ext ?wd w = (r1, w1)"
    by (cases "get_cog_version ext ?wd w")
  from get_cog_version_state(1)[where w=w and ext=ext and wd="?wd"] s1
  have f1: "files w1 = files w" by simp
  show ?thesis
  proof (cases r1)
    case (Inl e)
    with s1 f1 show ?thesis by (simp add: release_steps_def)
  next
    case (Inr previous_version)
    note r1 = Inr
    let ?w1' = "emit (Set_output ''previous_version'' previous_version) w1"
    obtain r2 w2 where s2: "bump_version ext inputs ?wd dry_run ?w1' = (r2, w2)"
      by (cases "bump_version ext inputs ?wd dry_run ?w1'")
    from bump_version_state[where w="?w1'" and ext=ext and inputs=inputs and wd="?wd"
        and dry_run=dry_run] s2 f1
    have f2: "files w2 = files w" by simp
    from bump_version_returns[of ext inputs ?wd dry_run ?w1'] s2
    obtain bumped where r2: "r2 = Inr bumped" by auto
    obtain r3 w3 where s3: "get_cog_version ext ?wd w2 = (r3, w3)"
      by (cases "get_cog_version ext ?wd w2")
    from get_cog_version_state(1)[where w=w2 and ext=ext and wd="?wd"] s3 f2
    have f3: "files w3 = files w" by simp
    show ?thesis
    proof (cases r3)
      case (Inl e)
      with s1 r1 s2 r2 s3 f3 show ?thesis by (simp add: release_steps_def)
    next
      case (Inr current_version)
      note r3 = Inr
      let ?w3' = "emit (Set_output ''current_version'' current_version) w3"
      obtain r4 w4 where s4:
        "generate_changelog ext inputs remote owner repo current_version ?w3' = (r4, w4)"
        by (cases "generate_changelog ext inputs remote owner repo current_version ?w3'")
      from generate_changelog_state[where w="?w3'" and ext=ext and inputs=inputs and remote=remote
          and owner=owner and repo=repo and version=current_version] s4 f3
      have f4: "files w4 = files w" by simp
      show ?thesis
      proof (cases r4)
        case (Inl e)
        with s1 r1 s2 r2 s3 r3 s4 f4 show ?thesis by (simp add: release_steps_def)
      next
        case (Inr changelog)
        let ?w4' = "emit (Set_output ''changelog'' changelog) w4"
        obtain r5 w5 where s5:
          "publish_step ext inputs current_version changelog owner repo ?w4' = (r5, w5)"
          by (cases "publish_step ext inputs current_version changelog owner repo ?w4'")
        from publish_step_state[of ext inputs current_version changelog owner repo ?w4'] s5 f4
        have f5: "files w5 = files w" by simp
        show ?thesis
          using s1 r1 s2 r2 s3 r3 s4 Inr s5 f5
          by (cases r5) (simp_all add: release_steps_def)
      qed
    qed
  qed
qed

lemma main_files:
  "files (snd (main ext w)) = files (snd (sync_step ext w))"
proof -
  obtain r2 w2 where s: "sync_step ext w = (r2, w2)" by (cases "sync_step ext w")
  obtain inputs remote owner repo dry_run where
    r: "fst (resolve_inputs w) = (inputs, (remote, owner, repo), dry_run)"
    by (metis prod.exhaust)
  have mb: "files (snd (main_body ext w)) = files w2"
  proof (cases r2)
    case (Inl e)
    then show ?thesis by (simp add: main_body_unfold s)
  next
    case (Inr u)
    then show ?thesis
      using release_steps_state[of ext inputs remote owner repo dry_run w2]
      by (simp add: main_body_unfold s r)
  qed
  obtain r3 w3 where m: "main_body ext w = (r3, w3)" by (cases "main_body ext w")
  with mb have "files w3 = files w2" by simp
  then show ?thesis using m s
    by (simp add: main_def split: sum.splits exn.splits)
qed

section \<open>Orchestrator: a run that creates a release\<close>

lemma py_or_unset:
  "x = None \<or> x = Some [] \<Longrightarrow> py_or x d = d"
  by (auto simp: py_or_def)

lemma resolved_defaults_empty:
  assumes "user_input w ''remote'' = None \<or> user_input w ''remote'' = Some []"
    and "user_input w ''owner'' = None \<or> user_input w ''owner'' = Some []"
    and "user_input w ''repo'' = None \<or> user_input w ''repo'' = Some []"
    and "environ w ''GITHUB_SERVER_URL'' = None \<or> environ w ''GITHUB_SERVER_URL'' = Some []"
    and "environ w ''GITHUB_REPOSITORY_OWNER'' = None
           \<or> environ w ''GITHUB_REPOSITORY_OWNER'' = Some []"
    and "environ w ''GITHUB_REPOSITORY'' = None \<or> environ w ''GITHUB_REPOSITORY'' = Some []"
  shows "fst (snd (fst (resolve_inputs w))) = ([], [], [])"
  by (simp add: resolve_inputs_unfold Let_def set_default_values_def get_action_inputs_def
      extract_domain_from_server_url_def extract_repo_from_repository_def
      py_or_unset[OF assms(1)] py_or_unset[OF assms(2)] py_or_unset[OF assms(3)]
      py_or_unset[OF assms(4)] py_or_unset[OF assms(5)] py_or_unset[OF assms(6)])

lemma resolved_update_flag:
  "i_update_cog_toml (fst (fst (resolve_inputs w))) = py_or (user_input w ''update_cog_toml'') ''true''"
  by (simp add: resolve_inputs_unfold Let_def get_action_inputs_def)

lemma resolved_create_flag:
  "i_create_forgejo_release (fst (fst (resolve_inputs w)))
     = py_or (user_input w ''create-forgejo-release'') ''true''"
  by (simp add: resolve_inputs_unfold Let_def get_action_inputs_def)

lemma sync_step_skipped:
  assumes "py_lower (py_or (user_input w ''update_cog_toml'') ''true'') \<noteq> ''true''"
  shows "sync_step ext w = (Inr (), snd (resolve_inputs w))"
proof -
  obtain inputs remote owner repo dry_run w1 where
    r: "resolve_inputs w = ((inputs, (remote, owner, repo), dry_run), w1)"
    by (metis prod.exhaust)
  have "py_lower (i_update_cog_toml inputs) \<noteq> ''true''"
    using assms resolved_update_flag[of w] r by simp
  then show ?thesis
    by (simp add: sync_step_def r setup_cog_configuration_def)
qed

lemma get_cog_version_succeeds:
  assumes "\<And>n cwd argv. os_exec ext n cwd argv = Completed 0 out []"
    and "decode_text ext out = Some out" and "decode_text ext [] = Some []"
  shows "fst (get_cog_version ext wd w) = Inr (py_strip out)"
  by (simp add: get_cog_version_outcome assms)

lemma generate_changelog_succeeds:
  assumes "\<And>n cwd argv. os_exec ext n cwd argv = Completed 0 out []"
    and "decode_text ext out = Some out" and "decode_text ext [] = Some []"
  shows "fst (generate_changelog ext inputs remote owner repo version w) = Inr (py_strip out)"
  using generate_changelog_outcome[of ext inputs remote owner repo version w]
  by (auto simp: assms)

lemma release_attempt_succeeds:
  assumes token: "environ w ''FORGEJO_TOKEN'' = Some token" "token \<noteq> []"
    and url: "environ w ''FORGEJO_SERVER_URL'' = None" "environ w ''GITHUB_SERVER_URL'' = Some url"
      "url \<noteq> []"
    and api: "\<And>n u t rq. forge_create_release ext n u t rq = Api_response (Some html_url) (Some ident)"
  shows "fst (release_attempt ext version changelog owner repo w) =
     Inr (Some (json_dumps (JObj [(''tag_name'', JStr version), (''name'', JStr version),
        (''body'', JStr changelog), (''html_url'', html_url), (''id'', ident)])))"
  using token url
  by (simp add: release_attempt_def py_or_opt_def Let_def api del: json_dumps.simps)

lemma create_forgejo_release_succeeds:
  assumes version: "version \<noteq> []"
    and token: "environ w ''FORGEJO_TOKEN'' = Some token" "token \<noteq> []"
    and url: "environ w ''FORGEJO_SERVER_URL'' = None" "environ w ''GITHUB_SERVER_URL'' = Some url"
      "url \<noteq> []"
    and api: "\<And>n u t rq. forge_create_release ext n u t rq = Api_response (Some html_url) (Some ident)"
  shows "fst (create_forgejo_release ext version changelog owner repo w) =
     Inr (Some (json_dumps (JObj [(''tag_name'', JStr version), (''name'', JStr version),
        (''body'', JStr changelog), (''html_url'', html_url), (''id'', ident)])))"
proof -
  let ?w0 = "emit (Start_group ''Create Forgejo release'') w"
  have "fst (release_attempt ext version changelog owner repo ?w0) =
     Inr (Some (json_dumps (JObj [(''tag_name'', JStr version), (''name'', JStr version),
        (''body'', JStr changelog), (''html_url'', html_url), (''id'', ident)])))"
    by (rule release_attempt_succeeds[where token=token and url=url]) (simp_all add: token url api)
  then show ?thesis
    using version
    by (cases "release_attempt ext version changelog owner repo ?w0")
       (simp add: create_forgejo_release_def del: json_dumps.simps)
qed

lemma json_object_nonempty: "json_dumps (JObj kvs) \<noteq> []"
  by simp

lemma publish_step_emits:
  assumes flag: "py_lower (i_create_forgejo_release inputs) = ''true''"
    and version: "version \<noteq> []"
    and made: "fst (create_forgejo_release ext version changelog owner repo w) = Inr (Some s)"
    and s: "s \<noteq> []"
  shows "publish_step ext inputs version changelog owner repo w =
           (Inr (), emit (Set_output ''forgejo_release_output'' (json_dumps (JStr s)))
                      (snd (create_forgejo_release ext version changelog owner repo w)))"
  using assms
  by (cases "create_forgejo_release ext version changelog owner repo w")
     (simp add: publish_step_def del: json_dumps.simps)

lemma release_steps_emits:
  assumes tools: "\<And>n cwd argv. os_exec ext n cwd argv = Completed 0 out []"
    and decode: "decode_text ext out = Some out" "decode_text ext [] = Some []"
    and v: "py_strip out \<noteq> []"
    and flag: "py_lower (i_create_forgejo_release inputs) = ''true''"
    and token: "environ w ''FORGEJO_TOKEN'' = Some token" "token \<noteq> []"
    and url: "environ w ''FORGEJO_SERVER_URL'' = None" "environ w ''GITHUB_SERVER_URL'' = Some url"
      "url \<noteq> []"
    and api: "\<And>n u t rq. forge_create_release ext n u t rq = Api_response (Some html_url) (Some ident)"
  shows "Set_output ''forgejo_release_output''
           (json_dumps (JStr (json_dumps (JObj [(''tag_name'', JStr (py_strip out)),
              (''name'', JStr (py_strip out)), (''body'', JStr (py_strip out)),
              (''html_url'', html_url), (''id'', ident)]))))
         \<in> set (trace (snd (release_steps ext inputs remote owner repo dry_run w)))
     \<and> \<lparr> rq_owner = owner, rq_repo = repo, rq_tag_name = py_strip out,
          rq_name = py_strip out, rq_body = py_strip out \<rparr>
         \<in> set (requests (trace (snd (release_steps ext inputs remote owner repo dry_run w))))"
proof -
  let ?wd = "i_working_directory inputs"
  let ?v = "py_strip out"
  let ?s = "json_dumps (JObj [(''tag_name'', JStr ?v), (''name'', JStr ?v), (''body'', JStr ?v),
              (''html_url'', html_url), (''id'', ident)])"
  let ?rq = "\<lparr> rq_owner = owner, rq_repo = repo, rq_tag_name = ?v, rq_name = ?v, rq_body = ?v \<rparr>"
  obtain r1 w1 where s1: "get_cog_version ext ?wd w = (r1, w1)"
    by (cases "get_cog_version ext ?wd w")
  from get_cog_version_succeeds[of ext out ?wd w, OF tools decode] s1 have r1: "r1 = Inr ?v" by simp
  from get_cog_version_state(1)[where w=w and ext=ext and wd="?wd"] s1
  have e1: "environ w1 = environ w" by simp
  let ?w1' = "emit (Set_output ''previous_version'' ?v) w1"
  obtain r2 w2 where s2: "bump_version ext inputs ?wd dry_run ?w1' = (r2, w2)"
    by (cases "bump_version ext inputs ?wd dry_run ?w1'")
  from bump_version_returns[of ext inputs ?wd dry_run ?w1'] s2
  obtain bumped where r2: "r2 = Inr bumped" by auto
  from bump_version_state[where w="?w1'" and ext=ext and inputs=inputs and wd="?wd"
      and dry_run=dry_run] s2 e1
  have e2: "environ w2 = environ w" by simp
  obtain r3 w3 where s3: "get_cog_version ext ?wd w2 = (r3, w3)"
    by (cases "get_cog_version ext ?wd w2")
  from get_cog_version_succeeds[of ext out ?wd w2, OF tools decode] s3 have r3: "r3 = Inr ?v" by simp
  from get_cog_version_state(1)[where w=w2 and ext=ext and wd="?wd"] s3 e2
  have e3: "environ w3 = environ w" by simp
  let ?w3' = "emit (Set_output ''current_version'' ?v) w3"
  obtain r4 w4 where s4: "generate_changelog ext inputs remote owner repo ?v ?w3' = (r4, w4)"
    by (cases "generate_changelog ext inputs remote owner repo ?v ?w3'")
  from generate_changelog_succeeds[of ext out inputs remote owner repo ?v ?w3', OF tools decode] s4
  have r4: "r4 = Inr ?v" by simp
  from generate_changelog_state[where w="?w3'" and ext=ext and inputs=inputs and remote=remote
      and owner=owner and repo=repo and version="?v"] s4 e3
  have e4: "environ w4 = environ w" by simp
  let ?w4' = "emit (Set_output ''changelog'' ?v) w4"
  have e4': "environ ?w4' = environ w" using e4 by simp
  have made: "fst (create_forgejo_release ext ?v ?v owner repo ?w4') = Inr (Some ?s)"
    by (rule create_forgejo_release_succeeds[where token=token and url=url])
       (simp_all add: v e4 token url api)
  have s_ne: "?s \<noteq> []" by (rule json_object_nonempty)
  note ps = publish_step_emits[OF flag v made s_ne]
  from create_forgejo_release_trace[of ext ?v ?v owner repo ?w4']
  obtain evs where
    tr: "trace (snd (create_forgejo_release ext ?v ?v owner repo ?w4')) = trace ?w4' @ evs"
    and created: "\<forall>s. fst (create_forgejo_release ext ?v ?v owner repo ?w4') = Inr (Some s) \<longrightarrow>
           (\<exists>url token html_url ident.
              Api_create_release url token ?rq \<in> set evs
            \<and> s = json_dumps (JObj [(''tag_name'', JStr ?v), (''name'', JStr ?v),
                      (''body'', JStr ?v), (''html_url'', html_url), (''id'', ident)]))"
    by (elim exE conjE)
  from created made obtain u t where "Api_create_release u t ?rq \<in> set evs" by blast
  then have "?rq \<in> set (requests evs)" by (rule requests_member)
  with tr have rq: "?rq \<in> set (requests (trace (snd (create_forgejo_release ext ?v ?v owner repo ?w4'))))"
    by simp
  have fin: "release_steps ext inputs remote owner repo dry_run w =
          (Inr (), emit (Log Info ''Release process completed successfully'')
             (emit (Set_output ''forgejo_release_output'' (json_dumps (JStr ?s)))
                (snd (create_forgejo_release ext ?v ?v owner repo ?w4'))))"
    using s1 r1 s2 r2 s3 r3 s4 r4 ps by (simp add: release_steps_def del: json_dumps.simps)
  show ?thesis
    unfolding fin using rq by (simp del: json_dumps.simps)
qed

lemma main_trace:
  "\<exists>evs. trace (snd (main ext w)) = trace (snd (main_body ext w)) @ evs \<and> requests evs = []"
  by (simp add: main_def split: prod.splits sum.splits exn.splits)

lemma main_emits:
  assumes tools: "\<And>n cwd argv. os_exec ext n cwd argv = Completed 0 out []"
    and decode: "decode_text ext out = Some out" "decode_text ext [] = Some []"
    and v: "py_strip out \<noteq> []"
    and noupdate: "py_lower (py_or (user_input w ''update_cog_toml'') ''true'') \<noteq> ''true''"
    and flag: "py_lower (py_or (user_input w ''create-forgejo-release'') ''true'') = ''true''"
    and token: "environ w ''FORGEJO_TOKEN'' = Some token" "token \<noteq> []"
    and url: "environ w ''FORGEJO_SERVER_URL'' = None" "environ w ''GITHUB_SERVER_URL'' = Some url"
      "url \<noteq> []"
    and api: "\<And>n u t rq. forge_create_release ext n u t rq = Api_response (Some html_url) (Some ident)"
    and coords: "fst (snd (fst (resolve_inputs w))) = (remote, owner, repo)"
  shows "Set_output ''forgejo_release_output''
           (json_dumps (JStr (json_dumps (JObj [(''tag_name'', JStr (py_strip out)),
              (''name'', JStr (py_strip out)), (''body'', JStr (py_strip out)),
              (''html_url'', html_url), (''id'', ident)]))))
         \<in> set (trace (snd (main ext w)))
     \<and> \<lparr> rq_owner = owner, rq_repo = repo, rq_tag_name = py_strip out,
          rq_name = py_strip out, rq_body = py_strip out \<rparr>
         \<in> set (requests (trace (snd (main ext w))))"
proof -
  obtain inputs dry_run w1 where
    r: "resolve_inputs w = ((inputs, (remote, owner, repo), dry_run), w1)"
    using coords by (metis prod.collapse)
  have e1: "environ w1 = environ w" using resolve_inputs_state[of w] r by simp
  have fl: "py_lower (i_create_forgejo_release inputs) = ''true''"
    using flag resolved_create_flag[of w] r by simp
  have ss: "sync_step ext w = (Inr (), w1)"
    using sync_step_skipped[OF noupdate, of ext] r by simp
  have mb: "main_body ext w = release_steps ext inputs remote owner repo dry_run w1"
    by (simp add: main_body_unfold ss r)
  note em = release_steps_emits[where token=token and url=url and w=w1 and remote=remote
      and owner=owner and repo=repo and dry_run=dry_run, OF tools decode v fl]
  have em': "Set_output ''forgejo_release_output''
           (json_dumps (JStr (json_dumps (JObj [(''tag_name'', JStr (py_strip out)),
              (''name'', JStr (py_strip out)), (''body'', JStr (py_strip out)),
              (''html_url'', html_url), (''id'', ident)]))))
         \<in> set (trace (snd (main_body ext w)))
     \<and> \<lparr> rq_owner = owner, rq_repo = repo, rq_tag_name = py_strip out,
          rq_name = py_strip out, rq_body = py_strip out \<rparr>
         \<in> set (requests (trace (snd (main_body ext w))))"
    unfolding mb by (rule em) (simp_all add: e1 token url api)
  from main_trace[of ext w] obtain evs where
    t: "trace (snd (main ext w)) = trace (snd (main_body ext w)) @ evs" by blast
  show ?thesis
    unfolding t using em' by (simp del: json_dumps.simps)
qed

section \<open>Release tag and changelog tag\<close>

lemma changelog_args_tag:
  assumes "version \<noteq> []"
  shows "\<exists>args tag_prefix. fst (get_tag_prefix ext w) = Inr tag_prefix
      \<and> fst (changelog_args ext inputs remote owner repo version w) =
            Inr (''changelog'' # args @ [''--at'', full_tag ext tag_prefix version])"
proof -
  from get_tag_prefix_returns[of ext w] obtain v w1 where
    g: "get_tag_prefix ext w = (Inr v, w1)" by blast
  with assms show ?thesis by (simp add: changelog_args_def Let_def)
qed

lemma publish_step_no_version:
  "publish_step ext inputs [] changelog owner repo w = (Inr (), w)"
  by (simp add: publish_step_def)

text \<open>The requests that the release steps add carry the version that the second version
  query returned, and if there is one, the changelog command ran for the prefixed tag.\<close>

lemma release_steps_requests:
  "\<exists>version sent.
      requests (trace (snd (release_steps ext inputs remote owner repo dry_run w)))
        = requests (trace w) @ sent
    \<and> (\<forall>request \<in> set sent. rq_tag_name request = version \<and> rq_name request = version)
    \<and> (sent \<noteq> [] \<longrightarrow>
         Set_output ''current_version'' version
           \<in> set (trace (snd (release_steps ext inputs remote owner repo dry_run w)))
       \<and> (\<exists>args tag_prefix. fst (get_tag_prefix ext w) = Inr tag_prefix
            \<and> Run_process (Some ''.'')
                 (''cog'' # ''changelog'' # args @ [''--at'', full_tag ext tag_prefix version])
               \<in> set (trace (snd (release_steps ext inputs remote owner repo dry_run w)))))"
proof -
  let ?wd = "i_working_directory inputs"
  let ?final = "snd (release_steps ext inputs remote owner repo dry_run w)"
  have none: "requests (trace ?final) = requests (trace w) \<Longrightarrow> ?thesis"
  proof -
    assume "requests (trace ?final) = requests (trace w)"
    then have "requests (trace ?final) = requests (trace w) @ []
        \<and> (\<forall>request \<in> set ([] :: release_request list).
              rq_tag_name request = [] \<and> rq_name request = [])"
      by simp
    then show ?thesis by blast
  qed
  obtain r1 w1 where s1: "get_cog_version ext ?wd w = (r1, w1)"
    by (cases "get_cog_version ext ?wd w")
  from get_cog_version_state(1)[where w=w and ext=ext and wd="?wd"] s1
  have u1: "unchanged w w1" by simp
  show ?thesis
  proof (cases r1)
    case (Inl e)
    with s1 u1 show ?thesis by (intro none) (simp add: release_steps_def)
  next
    case (Inr previous_version)
    note r1 = Inr
    let ?w1' = "emit (Set_output ''previous_version'' previous_version) w1"
    obtain r2 w2 where s2: "bump_version ext inputs ?wd dry_run ?w1' = (r2, w2)"
      by (cases "bump_version ext inputs ?wd dry_run ?w1'")
    from bump_version_state[where w="?w1'" and ext=ext and inputs=inputs and wd="?wd"
        and dry_run=dry_run] s2 u1
    have u2: "unchanged w w2" by simp
    from bump_version_returns[of ext inputs ?wd dry_run ?w1'] s2
    obtain bumped where r2: "r2 = Inr bumped" by auto
    obtain r3 w3 where s3: "get_cog_version ext ?wd w2 = (r3, w3)"
      by (cases "get_cog_version ext ?wd w2")
    from get_cog_version_state(1)[where w=w2 and ext=ext and wd="?wd"] s3 u2
    have u3: "unchanged w w3" by simp
    show ?thesis
    proof (cases r3)
      case (Inl e)
      with s1 r1 s2 r2 s3 u3 show ?thesis by (intro none) (simp add: release_steps_def)
    next
      case (Inr current_version)
      note r3 = Inr
      let ?w3' = "emit (Set_output ''current_version'' current_version) w3"
      have u3': "unchanged w ?w3'" using u3 by simp
      obtain r4 w4 where s4:
        "generate_changelog ext inputs remote owner repo current_version ?w3' = (r4, w4)"
        by (cases "generate_changelog ext inputs remote owner repo current_version ?w3'")
      from generate_changelog_state[where w="?w3'" and ext=ext and inputs=inputs and remote=remote
          and owner=owner and repo=repo and version=current_version] s4 u3
      have u4: "unchanged w w4" by simp
      show ?thesis
      proof (cases r4)
        case (Inl e)
        with s1 r1 s2 r2 s3 r3 s4 u4 show ?thesis by (intro none) (simp add: release_steps_def)
      next
        case (Inr changelog)
        let ?w4' = "emit (Set_output ''changelog'' changelog) w4"
        obtain r5 w5 where s5:
          "publish_step ext inputs current_version changelog owner repo ?w4' = (r5, w5)"
          by (cases "publish_step ext inputs current_version changelog owner repo ?w4'")
        from publish_step_returns[of ext inputs current_version changelog owner repo ?w4'] s5
        have r5: "r5 = Inr ()" by simp
        have fin: "release_steps ext inputs remote owner repo dry_run w =
            (Inr (), emit (Log Info ''Release process completed successfully'') w5)"
          using s1 r1 s2 r2 s3 r3 s4 Inr s5 r5 by (simp add: release_steps_def)
        from publish_step_trace[of ext inputs current_version changelog owner repo ?w4'] s5
        obtain evs5 where t5: "trace w5 = trace ?w4' @ evs5"
          and all5: "\<forall>request \<in> set (requests evs5).
             request = \<lparr> rq_owner = owner, rq_repo = repo, rq_tag_name = current_version,
                         rq_name = current_version, rq_body = changelog \<rparr>"
          by auto
        have q: "requests (trace ?final) = requests (trace w) @ requests evs5"
          unfolding fin using t5 u4 by simp
        have tags: "\<forall>request \<in> set (requests evs5).
            rq_tag_name request = current_version \<and> rq_name request = current_version"
        proof
          fix request assume "request \<in> set (requests evs5)"
          with all5 have "request = \<lparr> rq_owner = owner, rq_repo = repo,
              rq_tag_name = current_version, rq_name = current_version, rq_body = changelog \<rparr>"
            by blast
          then show "rq_tag_name request = current_version \<and> rq_name request = current_version"
            by simp
        qed
        have rest: "requests evs5 \<noteq> [] \<longrightarrow>
           Set_output ''current_version'' current_version \<in> set (trace ?final)
         \<and> (\<exists>args tag_prefix. fst (get_tag_prefix ext w) = Inr tag_prefix
              \<and> Run_process (Some ''.'')
                   (''cog'' # ''changelog'' # args @ [''--at'', full_tag ext tag_prefix current_version])
                 \<in> set (trace ?final))"
        proof
          assume sent: "requests evs5 \<noteq> []"
          have cv: "current_version \<noteq> []"
          proof
            assume "current_version = []"
            with s5 publish_step_no_version[of ext inputs changelog owner repo ?w4']
            have "w5 = ?w4'" by simp
            with t5 have "evs5 = []" by simp
            with sent show False by simp
          qed
          from generate_changelog_outcome[of ext inputs remote owner repo current_version ?w3'] s4
          obtain args0 evs4 where
            a0: "fst (changelog_args ext inputs remote owner repo current_version ?w3') = Inr args0"
            and t4: "trace w4 = trace ?w3' @ evs4"
            and c4: "Run_process (Some ''.'') (''cog'' # args0) \<in> set evs4"
            by auto
          from changelog_args_tag[OF cv, of ext ?w3' inputs remote owner repo]
          obtain args tag_prefix where
            tp: "fst (get_tag_prefix ext ?w3') = Inr tag_prefix"
            and a1: "fst (changelog_args ext inputs remote owner repo current_version ?w3')
                      = Inr (''changelog'' # args @ [''--at'', full_tag ext tag_prefix current_version])"
            by blast
          from a0 a1 have args0: "args0 = ''changelog'' # args
                @ [''--at'', full_tag ext tag_prefix current_version]" by simp
          have tp': "fst (get_tag_prefix ext w) = Inr tag_prefix"
            using get_tag_prefix_files[of ?w3' w ext] u3 tp by simp
          have out_in: "Set_output ''current_version'' current_version \<in> set (trace ?final)"
            unfolding fin using t5 t4 by simp
          have cmd_in: "Run_process (Some ''.'')
                   (''cog'' # ''changelog'' # args @ [''--at'', full_tag ext tag_prefix current_version])
                 \<in> set (trace ?final)"
            unfolding fin using t5 t4 c4 args0 by simp
          from out_in tp' cmd_in
          show "Set_output ''current_version'' current_version \<in> set (trace ?final)
         \<and> (\<exists>args tag_prefix. fst (get_tag_prefix ext w) = Inr tag_prefix
              \<and> Run_process (Some ''.'')
                   (''cog'' # ''changelog'' # args @ [''--at'', full_tag ext tag_prefix current_version])
                 \<in> set (trace ?final))"
            by blast
        qed
        from q tags rest show ?thesis by blast
      qed
    qed
  qed
qed

text \<open>
  Claim C8.  In every run of \<open>main\<close>, started with an empty trace, there are a version and
  the tag prefix that \<open>get_tag_prefix\<close> reads from the \<open>cog.toml\<close> left by the
  synchronization step, such that every release request sent to the forge during the run
  carries the bare version as \<open>tag_name\<close> and as \<open>name\<close>; and if a request was sent, that
  version is the run's \<open>current_version\<close> output and the run issued the command
  \<open>cog changelog ... --at\<close> for the tag made of the prefix joined to the version.  For a
  string prefix \<open>p\<close> that tag is \<open>p\<close> followed by the version, so for a non-empty prefix the
  tag of the changelog and the tag of the release differ.
\<close>

theorem main_release_tag_ignores_prefix:
  assumes "trace w = []"
  shows "\<exists>version tag_prefix.
      fst (get_tag_prefix ext (snd (sync_step ext w))) = Inr tag_prefix
    \<and> (\<forall>request \<in> set (requests (trace (snd (main ext w)))).
          rq_tag_name request = version \<and> rq_name request = version)
    \<and> (requests (trace (snd (main ext w))) \<noteq> [] \<longrightarrow>
         Set_output ''current_version'' version \<in> set (trace (snd (main ext w)))
       \<and> (\<exists>args. Run_process (Some ''.'')
                   (''cog'' # ''changelog'' # args @ [''--at'', full_tag ext tag_prefix version])
                 \<in> set (trace (snd (main ext w)))))
    \<and> (\<forall>p. tag_prefix = TStr p \<longrightarrow>
          full_tag ext tag_prefix version = p @ version
        \<and> (p \<noteq> [] \<longrightarrow> full_tag ext tag_prefix version \<noteq> version))"
proof -
  obtain r2 w2 where s: "sync_step ext w = (r2, w2)" by (cases "sync_step ext w")
  from sync_step_requests[of ext w] s assms have q2: "requests (trace w2) = []" by simp
  from get_tag_prefix_returns[of ext w2] obtain tp where
    tp: "fst (get_tag_prefix ext w2) = Inr tp" by auto
  have tags: "\<forall>p. tp = TStr p \<longrightarrow>
          full_tag ext tp version = p @ version
        \<and> (p \<noteq> [] \<longrightarrow> full_tag ext tp version \<noteq> version)" for version
    by (simp add: full_tag_def)
  from main_trace[of ext w] obtain evs where
    t: "trace (snd (main ext w)) = trace (snd (main_body ext w)) @ evs"
    and q: "requests evs = []" by blast
  obtain inputs remote owner repo dry_run where
    r: "fst (resolve_inputs w) = (inputs, (remote, owner, repo), dry_run)"
    by (metis prod.exhaust)
  show ?thesis
  proof (cases r2)
    case (Inl e)
    then have "snd (main_body ext w) = w2" by (simp add: main_body_unfold s)
    with t q q2 have "requests (trace (snd (main ext w))) = []" by simp
    with tp tags[of "[]"] s show ?thesis
      by (intro exI[of _ "[]"] exI[of _ tp]) simp
  next
    case (Inr u)
    then have mb: "snd (main_body ext w) = snd (release_steps ext inputs remote owner repo dry_run w2)"
      by (simp add: main_body_unfold s r)
    let ?final = "snd (release_steps ext inputs remote owner repo dry_run w2)"
    from release_steps_requests[of ext inputs remote owner repo dry_run w2]
    obtain version sent where
      rq: "requests (trace ?final) = requests (trace w2) @ sent"
      and all: "\<forall>request \<in> set sent. rq_tag_name request = version \<and> rq_name request = version"
      and cmd: "sent \<noteq> [] \<longrightarrow>
         Set_output ''current_version'' version \<in> set (trace ?final)
       \<and> (\<exists>args tag_prefix. fst (get_tag_prefix ext w2) = Inr tag_prefix
            \<and> Run_process (Some ''.'')
                 (''cog'' # ''changelog'' # args @ [''--at'', full_tag ext tag_prefix version])
               \<in> set (trace ?final))"
      by (elim exE conjE)
    have rq': "requests (trace (snd (main ext w))) = sent"
      using t q mb rq q2 by simp
    have cmd': "requests (trace (snd (main ext w))) \<noteq> [] \<longrightarrow>
         Set_output ''current_version'' version \<in> set (trace (snd (main ext w)))
       \<and> (\<exists>args. Run_process (Some ''.'')
                   (''cog'' # ''changelog'' # args @ [''--at'', full_tag ext tp version])
                 \<in> set (trace (snd (main ext w))))"
    proof
      assume "requests (trace (snd (main ext w))) \<noteq> []"
      with rq' have "sent \<noteq> []" by simp
      with cmd obtain args tag_prefix where
        o: "Set_output ''current_version'' version \<in> set (trace ?final)"
        and g: "fst (get_tag_prefix ext w2) = Inr tag_prefix"
        and c: "Run_process (Some ''.'')
                 (''cog'' # ''changelog'' # args @ [''--at'', full_tag ext tag_prefix version])
               \<in> set (trace ?final)"
        by blast
      from g tp have "tag_prefix = tp" by simp
      with o c t mb show "Set_output ''current_version'' version \<in> set (trace (snd (main ext w)))
       \<and> (\<exists>args. Run_process (Some ''.'')
                   (''cog'' # ''changelog'' # args @ [''--at'', full_tag ext tp version])
                 \<in> set (trace (snd (main ext w))))"
        by auto
    qed
    have g': "fst (get_tag_prefix ext (snd (sync_step ext w))) = Inr tp"
      using tp s by simp
    have all': "\<forall>request \<in> set (requests (trace (snd (main ext w)))).
          rq_tag_name request = version \<and> rq_name request = version"
      using all rq' by simp
    show ?thesis
      apply (rule exI[of _ version])
      apply (rule exI[of _ tp])
      apply (intro conjI)
         apply (rule g')
        apply (rule all')
       apply (rule cmd')
      apply (rule tags)
      done
  qed
qed

text \<open>A run with \<open>tag_prefix = "v"\<close> in which every command prints \<open>1.0.0\<close> and the forge
  accepts the request: the release is requested for the tag \<open>1.0.0\<close>, the changelog for
  the tag \<open>v1.0.0\<close>.\<close>

theorem main_release_tag_ignores_prefix_witness:
  "trace prefixed_world = []
   \<and> example_request \<in> set (requests (trace (snd (main releasing_ext prefixed_world))))
   \<and> rq_tag_name example_request = ''1.0.0'' \<and> rq_name example_request = ''1.0.0''
   \<and> Set_output ''current_version'' ''1.0.0''
        \<in> set (trace (snd (main releasing_ext prefixed_world)))
   \<and> (\<exists>args. Run_process (Some ''.'') (''cog'' # ''changelog'' # args @ [''--at'', ''v1.0.0''])
                \<in> set (trace (snd (main releasing_ext prefixed_world))))"
proof -
  have h: "trace prefixed_world = []"
    by (simp add: prefixed_world_def example_world_def)
  have tools: "\<And>n cwd argv. os_exec releasing_ext n cwd argv = Completed 0 example_stdout []"
    by (simp add: releasing_ext_def example_ext_def)
  have decode: "decode_text releasing_ext example_stdout = Some example_stdout"
    "decode_text releasing_ext [] = Some []"
    by (simp_all add: releasing_ext_def example_ext_def ascii_decode_def example_stdout_def)
  have api: "\<And>n u t rq. forge_create_release releasing_ext n u t rq =
      Api_response (Some (JStr ''https://forge.example/acme/proj/releases/tag/1.0.0''))
                   (Some (JInt 7))"
    by (simp add: releasing_ext_def example_ext_def)
  have strip: "py_strip example_stdout = ''1.0.0''"
    by code_simp
  have v: "py_strip example_stdout \<noteq> []"
    unfolding strip by simp
  have noupdate: "py_lower (py_or (user_input prefixed_world ''update_cog_toml'') ''true'') \<noteq> ''true''"
    by code_simp
  have flag: "py_lower (py_or (user_input prefixed_world ''create-forgejo-release'') ''true'') = ''true''"
    by code_simp
  have env: "environ prefixed_world ''FORGEJO_TOKEN'' = Some ''secret''" "''secret'' \<noteq> []"
    "environ prefixed_world ''FORGEJO_SERVER_URL'' = None"
    "environ prefixed_world ''GITHUB_SERVER_URL'' = Some ''https://forge.example''"
    "''https://forge.example'' \<noteq> []"
    by (simp_all add: prefixed_world_def example_world_def)
  have coords: "fst (snd (fst (resolve_inputs prefixed_world))) = (''forge.example'', ''acme'', ''proj'')"
    by code_simp
  have made: "example_request \<in> set (requests (trace (snd (main releasing_ext prefixed_world))))"
    using conjunct2[OF main_emits[where ext=releasing_ext and w=prefixed_world,
          OF tools decode v noupdate flag env api coords]]
    unfolding strip example_request_def .
  have prefix: "fst (get_tag_prefix releasing_ext (snd (sync_step releasing_ext prefixed_world)))
                  = Inr (TStr ''v'')"
    by code_simp
  have tag: "rq_tag_name example_request = ''1.0.0''" and name: "rq_name example_request = ''1.0.0''"
    by (simp_all add: example_request_def)
  from main_release_tag_ignores_prefix[where w=prefixed_world and ext=releasing_ext, OF h]
  obtain version tag_prefix where
    g: "fst (get_tag_prefix releasing_ext (snd (sync_step releasing_ext prefixed_world)))
          = Inr tag_prefix"
    and all: "\<forall>request \<in> set (requests (trace (snd (main releasing_ext prefixed_world)))).
          rq_tag_name request = version \<and> rq_name request = version"
    and cmd: "requests (trace (snd (main releasing_ext prefixed_world))) \<noteq> [] \<longrightarrow>
         Set_output ''current_version'' version
           \<in> set (trace (snd (main releasing_ext prefixed_world)))
       \<and> (\<exists>args. Run_process (Some ''.'')
                   (''cog'' # ''changelog'' # args
                      @ [''--at'', full_tag releasing_ext tag_prefix version])
                 \<in> set (trace (snd (main releasing_ext prefixed_world))))"
    and tags: "\<forall>p. tag_prefix = TStr p \<longrightarrow>
          full_tag releasing_ext tag_prefix version = p @ version
        \<and> (p \<noteq> [] \<longrightarrow> full_tag releasing_ext tag_prefix version \<noteq> version)"
    by (elim exE conjE)
  from g prefix have tp: "tag_prefix = TStr ''v''" by simp
  from all made tag have ver: "version = ''1.0.0''" by auto
  from tags tp ver have ft: "full_tag releasing_ext tag_prefix version = ''v1.0.0''" by simp
  from made have ne: "requests (trace (snd (main releasing_ext prefixed_world))) \<noteq> []" by auto
  from cmd ne have
    o: "Set_output ''current_version'' version
           \<in> set (trace (snd (main releasing_ext prefixed_world)))"
    and c: "\<exists>args. Run_process (Some ''.'')
                   (''cog'' # ''changelog'' # args
                      @ [''--at'', full_tag releasing_ext tag_prefix version])
                 \<in> set (trace (snd (main releasing_ext prefixed_world)))"
    by simp_all
  note o' = o[unfolded ver]
  note c' = c[unfolded ft]
  show ?thesis
    by (rule conjI[OF h conjI[OF made conjI[OF tag conjI[OF name conjI[OF o' c']]]]])
qed

section \<open>Changelog Generator: failure of the tool\<close>

text \<open>When the command that \<open>generate_changelog\<close> issues exits with a non-zero status and
  its output decodes, the result is the empty string.\<close>

lemma generate_changelog_swallows_exit_status:
  assumes "fst (changelog_args ext inputs remote owner repo version w) = Inr args"
    and "os_exec ext (clock w) (Some ''.'') (''cog'' # args) = Completed rc out_bytes err_bytes"
    and "rc \<noteq> 0"
    and "decode_text ext out_bytes = Some out" and "decode_text ext err_bytes = Some err"
  shows "fst (generate_changelog ext inputs remote owner repo version w) = Inr []"
  using generate_changelog_outcome[of ext inputs remote owner repo version w] assms
  by auto

text \<open>
  Claim C6 says that \<open>generate_changelog\<close> returns the empty string and never raises when
  the changelog tool exits with a non-zero status.  The handler of \<open>run_cog_command\<close>
  catches \<open>CalledProcessError\<close> only, and \<open>subprocess.run\<close> with \<open>text=True\<close> decodes the
  output before it looks at the exit status.  In the run below \<open>cog changelog\<close> exits with
  status 1 and writes a byte to standard error that does not decode: \<open>generate_changelog\<close>
  raises \<open>UnicodeDecodeError\<close> to its caller.  The other two parts of the claim hold:
  \<open>get_tag_prefix\<close> always returns (\<open>get_tag_prefix_returns\<close>), with the empty string when
  \<open>cog.toml\<close> is missing, cannot be parsed or has no \<open>tag_prefix\<close>
  (\<open>get_tag_prefix_default\<close>), and a non-zero exit status with output that decodes gives the
  empty string (\<open>generate_changelog_swallows_exit_status\<close>).
\<close>

theorem generate_changelog_raises_on_undecodable_output:
  "os_exec garbled_ext 0 (Some ''.'')
      [''cog'', ''changelog'', ''--remote'', ''git.example.com'', ''--owner'', ''acme'',
       ''--repository'', ''proj'', ''--at'', ''1.0.0''] = Completed 1 [] [CHR 0xFF]
   \<and> decode_text garbled_ext [CHR 0xFF] = None
   \<and> fst (changelog_args garbled_ext (fst (get_action_inputs (example_world [] [] None)))
          ''git.example.com'' ''acme'' ''proj'' ''1.0.0'' (example_world [] [] None))
       = Inr [''changelog'', ''--remote'', ''git.example.com'', ''--owner'', ''acme'',
              ''--repository'', ''proj'', ''--at'', ''1.0.0'']
   \<and> fst (generate_changelog garbled_ext (fst (get_action_inputs (example_world [] [] None)))
          ''git.example.com'' ''acme'' ''proj'' ''1.0.0'' (example_world [] [] None))
       = Inl UnicodeDecodeError"
  by code_simp

section \<open>Orchestrator: exit status\<close>

lemma get_cog_version_raises:
  assumes "fst (get_cog_version ext wd w) = Inl e"
  shows "e = OSError \<or> e = UnicodeDecodeError"
  using assms
  by (auto simp: get_cog_version_outcome split: proc_outcome.splits option.splits if_splits)

lemma generate_changelog_raises:
  assumes "fst (generate_changelog ext inputs remote owner repo version w) = Inl e"
  shows "e = OSError \<or> e = UnicodeDecodeError"
proof -
  from generate_changelog_outcome[of ext inputs remote owner repo version w]
  obtain args where
    "fst (generate_changelog ext inputs remote owner repo version w) =
        (case os_exec ext (clock w) (Some ''.'') (''cog'' # args) of
           Cannot_start \<Rightarrow> Inl OSError
         | Completed rc out_bytes err_bytes \<Rightarrow>
            (case (decode_text ext out_bytes, decode_text ext err_bytes) of
               (Some out, Some err) \<Rightarrow> if rc \<noteq> 0 then Inr [] else Inr (py_strip out)
             | _ \<Rightarrow> Inl UnicodeDecodeError))"
    by blast
  with assms show ?thesis
    by (auto split: proc_outcome.splits option.splits if_splits)
qed

lemma release_steps_result:
  "fst (release_steps ext inputs remote owner repo dry_run w)
     \<in> {Inr (), Inl OSError, Inl UnicodeDecodeError}"
proof -
  let ?wd = "i_working_directory inputs"
  obtain r1 w1 where s1: "get_cog_version ext ?wd w = (r1, w1)"
    by (cases "get_cog_version ext ?wd w")
  show ?thesis
  proof (cases r1)
    case (Inl e)
    with s1 get_cog_version_raises[of ext ?wd w e]
    have "e = OSError \<or> e = UnicodeDecodeError" by simp
    moreover have "fst (release_steps ext inputs remote owner repo dry_run w) = Inl e"
      using s1 Inl by (simp add: release_steps_def)
    ultimately show ?thesis by auto
  next
    case (Inr previous_version)
    note r1 = Inr
    let ?w1' = "emit (Set_output ''previous_version'' previous_version) w1"
    obtain r2 w2 where s2: "bump_version ext inputs ?wd dry_run ?w1' = (r2, w2)"
      by (cases "bump_version ext inputs ?wd dry_run ?w1'")
    from bump_version_returns[of ext inputs ?wd dry_run ?w1'] s2
    obtain bumped where r2: "r2 = Inr bumped" by auto
    obtain r3 w3 where s3: "get_cog_version ext ?wd w2 = (r3, w3)"
      by (cases "get_cog_version ext ?wd w2")
    show ?thesis
    proof (cases r3)
      case (Inl e)
      with s3 get_cog_version_raises[of ext ?wd w2 e]
      have "e = OSError \<or> e = UnicodeDecodeError" by simp
      moreover have "fst (release_steps ext inputs remote owner repo dry_run w) = Inl e"
        using s1 r1 s2 r2 s3 Inl by (simp add: release_steps_def)
      ultimately show ?thesis by auto
    next
      case (Inr current_version)
      note r3 = Inr
      let ?w3' = "emit (Set_output ''current_version'' current_version) w3"
      obtain r4 w4 where s4:
        "generate_changelog ext inputs remote owner repo current_version ?w3' = (r4, w4)"
        by (cases "generate_changelog ext inputs remote owner repo current_version ?w3'")
      show ?thesis
      proof (cases r4)
        case (Inl e)
        with s4 generate_changelog_raises[of ext inputs remote owner repo current_version ?w3' e]
        have "e = OSError \<or> e = UnicodeDecodeError" by simp
        moreover have "fst (release_steps ext inputs remote owner repo dry_run w) = Inl e"
          using s1 r1 s2 r2 s3 r3 s4 Inl by (simp add: release_steps_def)
        ultimately show ?thesis by auto
      next
        case (Inr changelog)
        let ?w4' = "emit (Set_output ''changelog'' changelog) w4"
        obtain r5 w5 where s5:
          "publish_step ext inputs current_version changelog owner repo ?w4' = (r5, w5)"
          by (cases "publish_step ext inputs current_version changelog owner repo ?w4'")
        from publish_step_returns[of ext inputs current_version changelog owner repo ?w4'] s5
        have r5: "r5 = Inr ()" by simp
        have "fst (release_steps ext inputs remote owner repo dry_run w) = Inr ()"
          using s1 r1 s2 r2 s3 r3 s4 Inr s5 r5 by (simp add: release_steps_def)
        then show ?thesis by simp
      qed
    qed
  qed
qed

text \<open>How a run can end: \<open>sys.exit(1)\<close> is reached exactly when the synchronization step
  raises; otherwise \<open>main\<close> returns, or one of the two exceptions that the handlers around
  the \<open>cog\<close> commands do not catch leaves it.\<close>

lemma main_outcomes:
  "(fst (main ext w) = Exited 1 \<longleftrightarrow> isl (fst (sync_step ext w)))
   \<and> fst (main ext w) \<in> {Returned, Exited 1, Uncaught OSError, Uncaught UnicodeDecodeError}"
proof -
  obtain r2 w2 where s: "sync_step ext w = (r2, w2)" by (cases "sync_step ext w")
  obtain inputs remote owner repo dry_run where
    r: "fst (resolve_inputs w) = (inputs, (remote, owner, repo), dry_run)"
    by (metis prod.exhaust)
  from sync_step_result[of ext w] s
  have "r2 = Inr () \<or> (\<exists>e. r2 = Inl (ReleaseWithCogError e))" by simp
  then show ?thesis
  proof
    assume r2: "r2 = Inr ()"
    have mb: "main_body ext w = release_steps ext inputs remote owner repo dry_run w2"
      by (simp add: main_body_unfold s r2 r)
    obtain r3 w3 where m: "main_body ext w = (r3, w3)" by (cases "main_body ext w")
    from mb m have "fst (release_steps ext inputs remote owner repo dry_run w2) = r3"
      by (metis fst_conv)
    with release_steps_result[of ext inputs remote owner repo dry_run w2]
    have "r3 = Inr () \<or> r3 = Inl OSError \<or> r3 = Inl UnicodeDecodeError" by simp
    then show ?thesis using m s r2 by (auto simp: main_def)
  next
    assume "\<exists>e. r2 = Inl (ReleaseWithCogError e)"
    then obtain e where r2: "r2 = Inl (ReleaseWithCogError e)" by blast
    have "main_body ext w = (Inl (ReleaseWithCogError e), w2)"
      by (simp add: main_body_unfold s r2)
    then show ?thesis using s r2 by (simp add: main_def)
  qed
qed

text \<open>
  Claim C3 says that only a failure of the configuration synchronization ends the run with
  status 1, every failure of the version query being turned into a default.  In the two
  runs below the synchronization is switched off and returns normally.  In the first the
  \<open>cog\<close> executable cannot be started: the first version query raises \<open>OSError\<close>.  In the
  second \<open>cog get-version\<close> exits with status 1 and writes a byte that does not decode: the
  query raises \<open>UnicodeDecodeError\<close>.  \<open>run_cog_command\<close> catches \<open>CalledProcessError\<close> only
  and \<open>get_cog_version\<close> and \<open>main\<close> catch the pipeline error only, so the exception leaves
  \<open>main\<close> and the process ends with status 1.  \<open>bump_version\<close>, which catches every exception,
  returns \<open>False\<close> in the same two worlds.  The rest of the claim holds: \<open>sys.exit(1)\<close> is
  reached exactly when the synchronization step raises (\<open>main_outcomes\<close>).
\<close>

theorem main_fails_without_sync_failure:
  "fst (sync_step missing_cog_ext (example_world [(''update_cog_toml'', ''false'')] [] None))
     = Inr ()
   \<and> fst (main missing_cog_ext (example_world [(''update_cog_toml'', ''false'')] [] None))
     = Uncaught OSError
   \<and> exit_status (fst (main missing_cog_ext
        (example_world [(''update_cog_toml'', ''false'')] [] None))) = 1
   \<and> fst (sync_step garbled_ext (example_world [(''update_cog_toml'', ''false'')] [] None))
     = Inr ()
   \<and> fst (main garbled_ext (example_world [(''update_cog_toml'', ''false'')] [] None))
     = Uncaught UnicodeDecodeError
   \<and> exit_status (fst (main garbled_ext
        (example_world [(''update_cog_toml'', ''false'')] [] None))) = 1
   \<and> fst (bump_version missing_cog_ext
        (fst (get_action_inputs (example_world [(''update_cog_toml'', ''false'')] [] None)))
        ''.'' False (example_world [(''update_cog_toml'', ''false'')] [] None)) = Inr False
   \<and> fst (bump_version garbled_ext
        (fst (get_action_inputs (example_world [(''update_cog_toml'', ''false'')] [] None)))
        ''.'' False (example_world [(''update_cog_toml'', ''false'')] [] None)) = Inr False"
  by code_simp

section \<open>Config Synchronizer: empty strings are written\<close>

lemma key_absent: "map_of kvs k = None \<Longrightarrow> k \<notin> fst ` set kvs"
  by (simp add: map_of_eq_None_iff)

lemma set_field_table_own:
  assumes "set_field k supplied (TTable kvs, b) = Inr (TTable kvs', b')"
    and "map_of kvs k = None"
  shows "map_of kvs' k = map_option TStr supplied \<and> (supplied \<noteq> None \<longrightarrow> b')"
  using assms
  by (cases supplied) (auto simp: set_field_table key_absent AList.update_conv')

lemma set_field_table_flag:
  assumes "set_field k supplied (TTable kvs, b) = Inr (TTable kvs', b')" and b
  shows b'
  using assms by (cases supplied) (auto simp: set_field_table split: if_splits)

lemma set_field_table_other:
  assumes "set_field k supplied (TTable kvs, b) = Inr (TTable kvs', b')" and "j \<noteq> k"
  shows "map_of kvs' j = map_of kvs j"
  using set_field_table_frame[OF assms(1)] assms(2) by auto

lemma set_missing_fields_value:
  assumes m: "set_missing_fields remote repository owner (TTable kvs) = Inr (TTable kvs', c)"
    and k: "k \<in> {''remote'', ''repository'', ''owner''}"
    and absent: "map_of kvs k = None"
  shows "map_of kvs' k = map_option TStr
           (if k = ''remote'' then remote else if k = ''repository'' then repository else owner)
       \<and> ((if k = ''remote'' then remote else if k = ''repository'' then repository else owner)
             \<noteq> None \<longrightarrow> c)"
proof -
  obtain c1 b1 where s1: "set_field ''remote'' remote (TTable kvs, False) = Inr (c1, b1)"
    using set_field_table_total by blast
  from set_field_table_frame[OF s1] obtain k1 where c1: "c1 = TTable k1" by blast
  obtain c2 b2 where s2: "set_field ''repository'' repository (TTable k1, b1) = Inr (c2, b2)"
    using set_field_table_total by blast
  from set_field_table_frame[OF s2] obtain k2 where c2: "c2 = TTable k2" by blast
  obtain c3 b3 where s3: "set_field ''owner'' owner (TTable k2, b2) = Inr (c3, b3)"
    using set_field_table_total by blast
  from set_field_table_frame[OF s3] obtain k3 where c3: "c3 = TTable k3" by blast
  note s1' = s1[unfolded c1] and s2' = s2[unfolded c2] and s3' = s3[unfolded c3]
  have "set_missing_fields remote repository owner (TTable kvs) = Inr (TTable k3, b3)"
    using s1 s2 s3 by (simp add: set_missing_fields_def c1 c2 c3)
  with m have eq: "kvs' = k3" "c = b3" by simp_all
  from k consider "k = ''remote''" | "k = ''repository''" | "k = ''owner''" by auto
  then show ?thesis
  proof cases
    case 1
    from set_field_table_own[OF s1'] absent 1
    have a: "map_of k1 ''remote'' = map_option TStr remote" "remote \<noteq> None \<longrightarrow> b1"
      by simp_all
    have "map_of k3 ''remote'' = map_of k1 ''remote''"
      using set_field_table_other[OF s2', of "''remote''"]
        set_field_table_other[OF s3', of "''remote''"] by simp
    moreover have "b1 \<longrightarrow> b3"
      using set_field_table_flag[OF s2'] set_field_table_flag[OF s3'] by blast
    ultimately show ?thesis using a 1 eq by simp
  next
    case 2
    have "map_of k1 ''repository'' = None"
      using set_field_table_other[OF s1', of "''repository''"] absent 2 by simp
    from set_field_table_own[OF s2' this]
    have a: "map_of k2 ''repository'' = map_option TStr repository" "repository \<noteq> None \<longrightarrow> b2"
      by simp_all
    have "map_of k3 ''repository'' = map_of k2 ''repository''"
      using set_field_table_other[OF s3', of "''repository''"] by simp
    moreover have "b2 \<longrightarrow> b3"
      using set_field_table_flag[OF s3'] by blast
    ultimately show ?thesis using a 2 eq by simp
  next
    case 3
    have "map_of k1 ''owner'' = None"
      using set_field_table_other[OF s1', of "''owner''"] absent 3 by simp
    then have "map_of k2 ''owner'' = None"
      using set_field_table_other[OF s2', of "''owner''"] by simp
    from set_field_table_own[OF s3' this]
    have a: "map_of k3 ''owner'' = map_option TStr owner" "owner \<noteq> None \<longrightarrow> b3"
      by simp_all
    then show ?thesis using 3 eq by simp
  qed
qed

lemma missing_field_written:
  assumes roundtrip: "\<And>d. toml_load ext (toml_dump ext d) = Some d"
    and present: "fs path = Some content"
    and load: "toml_load ext content = Some config"
    and shape: "map_of config ''changelog'' = None
        \<or> (\<exists>kvs. map_of config ''changelog'' = Some (TTable kvs) \<and> map_of kvs k = None)"
    and k: "k \<in> {''remote'', ''repository'', ''owner''}"
  shows "\<exists>c fs'. setup_cog_config ext path remote repository owner fs = (Inr c, fs')
     \<and> changelog_field ext (fs' path) k = map_option TStr
           (if k = ''remote'' then remote else if k = ''repository'' then repository else owner)
     \<and> ((if k = ''remote'' then remote else if k = ''repository'' then repository else owner)
           \<noteq> None \<longrightarrow> c)"
proof -
  from shape obtain kvs where
    ens: "map_of (ensure_changelog config) ''changelog'' = Some (TTable kvs)" and
    absent: "map_of kvs k = None" and
    sh: "map_of config ''changelog'' = None \<and> kvs = []
          \<or> map_of config ''changelog'' = Some (TTable kvs)"
  proof
    assume n: "map_of config ''changelog'' = None"
    show ?thesis
      by (rule that[of "[]"]) (simp_all add: ensure_changelog_absent[OF n] n)
  next
    assume "\<exists>kvs. map_of config ''changelog'' = Some (TTable kvs) \<and> map_of kvs k = None"
    then obtain kvs where t: "map_of config ''changelog'' = Some (TTable kvs)"
      and a: "map_of kvs k = None" by blast
    show ?thesis
      by (rule that[of kvs]) (simp_all add: ensure_changelog_present[OF t] t a)
  qed
  from setup_cog_config_on_table[where fs=fs and path=path, OF present load ens,
      of remote repository owner]
  obtain c kvs' where
    r: "setup_cog_config ext path remote repository owner fs =
       (Inr c, if c then fs(path \<mapsto> toml_dump ext
                  (AList.update ''changelog'' (TTable kvs') (ensure_changelog config))) else fs)"
    and m: "set_missing_fields remote repository owner (TTable kvs) = Inr (TTable kvs', c)"
    and unch: "\<not> c \<longrightarrow> kvs' = kvs"
    by (elim exE conjE)
  note v = set_missing_fields_value[OF m k absent]
  have rb: "changelog_field ext
           ((if c then fs(path \<mapsto> toml_dump ext
               (AList.update ''changelog'' (TTable kvs') (ensure_changelog config))) else fs) path) k
         = map_of kvs' k"
    by (rule read_back[where fs=fs and path=path, OF roundtrip present load sh unch])
  show ?thesis
    apply (rule exI[of _ c])
    apply (rule exI[of _ "if c then fs(path \<mapsto> toml_dump ext
               (AList.update ''changelog'' (TTable kvs') (ensure_changelog config))) else fs"])
    apply (intro conjI)
      apply (rule r)
     apply (simp only: rb conjunct1[OF v])
    apply (rule conjunct2[OF v])
    done
qed

lemma sync_step_files:
  assumes flag: "py_lower (py_or (user_input w ''update_cog_toml'') ''true'') = ''true''"
    and coords: "fst (snd (fst (resolve_inputs w))) = (remote, owner, repo)"
  shows "files (snd (sync_step ext w)) =
     snd (setup_cog_config ext ''cog.toml'' (Some remote) (Some repo) (Some owner) (files w))"
proof -
  obtain inputs dry_run w1 where
    r: "resolve_inputs w = ((inputs, (remote, owner, repo), dry_run), w1)"
    using coords by (metis prod.collapse)
  have f1: "files w1 = files w" using resolve_inputs_state[of w] r by simp
  have fl: "py_lower (i_update_cog_toml inputs) = ''true''"
    using flag resolved_update_flag[of w] r by simp
  show ?thesis
    using setup_cog_configuration_files[OF fl, of ext remote owner repo w1] f1
    by (simp add: sync_step_def r)
qed

text \<open>
  Claim C9.  Let the changelog section be missing, or be a table without the field \<open>k\<close>
  (one of \<open>remote\<close>, \<open>repository\<close>, \<open>owner\<close>).  If a string \<open>v\<close> is supplied for \<open>k\<close>, the empty
  string included, \<open>setup_cog_config\<close> returns \<open>changes_made = True\<close> and the file read
  afterwards holds \<open>v\<close> for \<open>k\<close>; if \<open>None\<close> is supplied the field stays absent.  A run of the
  orchestrator with the three inputs and the three forge variables unset and the update
  enabled resolves every coordinate to the empty string, and the file it leaves holds the
  empty string for the field.
\<close>

theorem empty_string_is_written:
  assumes roundtrip: "\<And>d. toml_load ext (toml_dump ext d) = Some d"
  shows "(fs path = Some content \<and> toml_load ext content = Some config
          \<and> (map_of config ''changelog'' = None
               \<or> (\<exists>kvs. map_of config ''changelog'' = Some (TTable kvs) \<and> map_of kvs k = None))
          \<and> k \<in> {''remote'', ''repository'', ''owner''}
        \<longrightarrow>
          ((if k = ''remote'' then remote else if k = ''repository'' then repository else owner)
             = Some v
           \<longrightarrow> (\<exists>fs'. setup_cog_config ext path remote repository owner fs = (Inr True, fs')
                  \<and> changelog_field ext (fs' path) k = Some (TStr v)))
        \<and> ((if k = ''remote'' then remote else if k = ''repository'' then repository else owner)
             = None
           \<longrightarrow> (\<exists>c fs'. setup_cog_config ext path remote repository owner fs = (Inr c, fs')
                  \<and> changelog_field ext (fs' path) k = None)))
     \<and> ((user_input w ''remote'' = None \<or> user_input w ''remote'' = Some [])
          \<and> (user_input w ''owner'' = None \<or> user_input w ''owner'' = Some [])
          \<and> (user_input w ''repo'' = None \<or> user_input w ''repo'' = Some [])
          \<and> (environ w ''GITHUB_SERVER_URL'' = None \<or> environ w ''GITHUB_SERVER_URL'' = Some [])
          \<and> (environ w ''GITHUB_REPOSITORY_OWNER'' = None
               \<or> environ w ''GITHUB_REPOSITORY_OWNER'' = Some [])
          \<and> (environ w ''GITHUB_REPOSITORY'' = None \<or> environ w ''GITHUB_REPOSITORY'' = Some [])
          \<and> py_lower (py_or (user_input w ''update_cog_toml'') ''true'') = ''true''
          \<and> files w ''cog.toml'' = Some content \<and> toml_load ext content = Some config
          \<and> (map_of config ''changelog'' = None
               \<or> (\<exists>kvs. map_of config ''changelog'' = Some (TTable kvs) \<and> map_of kvs k = None))
          \<and> k \<in> {''remote'', ''repository'', ''owner''}
        \<longrightarrow> changelog_field ext (files (snd (main ext w)) ''cog.toml'') k = Some (TStr []))"
proof (rule conjI)
  show "fs path = Some content \<and> toml_load ext content = Some config
          \<and> (map_of config ''changelog'' = None
               \<or> (\<exists>kvs. map_of config ''changelog'' = Some (TTable kvs) \<and> map_of kvs k = None))
          \<and> k \<in> {''remote'', ''repository'', ''owner''}
        \<longrightarrow>
          ((if k = ''remote'' then remote else if k = ''repository'' then repository else owner)
             = Some v
           \<longrightarrow> (\<exists>fs'. setup_cog_config ext path remote repository owner fs = (Inr True, fs')
                  \<and> changelog_field ext (fs' path) k = Some (TStr v)))
        \<and> ((if k = ''remote'' then remote else if k = ''repository'' then repository else owner)
             = None
           \<longrightarrow> (\<exists>c fs'. setup_cog_config ext path remote repository owner fs = (Inr c, fs')
                  \<and> changelog_field ext (fs' path) k = None))"
  proof (intro impI, elim conjE)
    assume present: "fs path = Some content" and load: "toml_load ext content = Some config"
      and shape: "map_of config ''changelog'' = None
               \<or> (\<exists>kvs. map_of config ''changelog'' = Some (TTable kvs) \<and> map_of kvs k = None)"
      and k: "k \<in> {''remote'', ''repository'', ''owner''}"
    let ?sup = "if k = ''remote'' then remote else if k = ''repository'' then repository else owner"
    from missing_field_written[where fs=fs and path=path, OF roundtrip present load shape k,
        of remote repository owner]
    obtain c fs' where
      r: "setup_cog_config ext path remote repository owner fs = (Inr c, fs')" and
      f: "changelog_field ext (fs' path) k = map_option TStr ?sup" and
      ch: "?sup \<noteq> None \<longrightarrow> c"
      by (elim exE conjE)
    show "(?sup = Some v
           \<longrightarrow> (\<exists>fs'. setup_cog_config ext path remote repository owner fs = (Inr True, fs')
                  \<and> changelog_field ext (fs' path) k = Some (TStr v)))
        \<and> (?sup = None
           \<longrightarrow> (\<exists>c fs'. setup_cog_config ext path remote repository owner fs = (Inr c, fs')
                  \<and> changelog_field ext (fs' path) k = None))"
    proof (intro conjI impI)
      assume s: "?sup = Some v"
      with ch have c by simp
      with r f s show "\<exists>fs'. setup_cog_config ext path remote repository owner fs = (Inr True, fs')
                  \<and> changelog_field ext (fs' path) k = Some (TStr v)"
        by (intro exI[of _ fs']) simp
    next
      assume s: "?sup = None"
      with r f show "\<exists>c fs'. setup_cog_config ext path remote repository owner fs = (Inr c, fs')
                  \<and> changelog_field ext (fs' path) k = None"
        by (intro exI[of _ c] exI[of _ fs']) simp
    qed
  qed
next
  show "(user_input w ''remote'' = None \<or> user_input w ''remote'' = Some [])
          \<and> (user_input w ''owner'' = None \<or> user_input w ''owner'' = Some [])
          \<and> (user_input w ''repo'' = None \<or> user_input w ''repo'' = Some [])
          \<and> (environ w ''GITHUB_SERVER_URL'' = None \<or> environ w ''GITHUB_SERVER_URL'' = Some [])
          \<and> (environ w ''GITHUB_REPOSITORY_OWNER'' = None
               \<or> environ w ''GITHUB_REPOSITORY_OWNER'' = Some [])
          \<and> (environ w ''GITHUB_REPOSITORY'' = None \<or> environ w ''GITHUB_REPOSITORY'' = Some [])
          \<and> py_lower (py_or (user_input w ''update_cog_toml'') ''true'') = ''true''
          \<and> files w ''cog.toml'' = Some content \<and> toml_load ext content = Some config
          \<and> (map_of config ''changelog'' = None
               \<or> (\<exists>kvs. map_of config ''changelog'' = Some (TTable kvs) \<and> map_of kvs k = None))
          \<and> k \<in> {''remote'', ''repository'', ''owner''}
        \<longrightarrow> changelog_field ext (files (snd (main ext w)) ''cog.toml'') k = Some (TStr [])"
  proof (intro impI, elim conjE)
    assume i1: "user_input w ''remote'' = None \<or> user_input w ''remote'' = Some []"
      and i2: "user_input w ''owner'' = None \<or> user_input w ''owner'' = Some []"
      and i3: "user_input w ''repo'' = None \<or> user_input w ''repo'' = Some []"
      and e1: "environ w ''GITHUB_SERVER_URL'' = None \<or> environ w ''GITHUB_SERVER_URL'' = Some []"
      and e2: "environ w ''GITHUB_REPOSITORY_OWNER'' = None
               \<or> environ w ''GITHUB_REPOSITORY_OWNER'' = Some []"
      and e3: "environ w ''GITHUB_REPOSITORY'' = None \<or> environ w ''GITHUB_REPOSITORY'' = Some []"
      and flag: "py_lower (py_or (user_input w ''update_cog_toml'') ''true'') = ''true''"
      and present: "files w ''cog.toml'' = Some content"
      and load: "toml_load ext content = Some config"
      and shape: "map_of config ''changelog'' = None
               \<or> (\<exists>kvs. map_of config ''changelog'' = Some (TTable kvs) \<and> map_of kvs k = None)"
      and k: "k \<in> {''remote'', ''repository'', ''owner''}"
    note coords = resolved_defaults_empty[OF i1 i2 i3 e1 e2 e3]
    have fm: "files (snd (main ext w)) =
        snd (setup_cog_config ext ''cog.toml'' (Some []) (Some []) (Some []) (files w))"
      using main_files[of ext w] sync_step_files[OF flag coords, of ext] by simp
    from missing_field_written[where fs="files w" and path="''cog.toml''",
        OF roundtrip present load shape k, of "Some []" "Some []" "Some []"]
    obtain c fs' where
      r: "setup_cog_config ext ''cog.toml'' (Some []) (Some []) (Some []) (files w) = (Inr c, fs')" and
      f: "changelog_field ext (fs' ''cog.toml'') k = map_option TStr
           (if k = ''remote'' then Some [] else if k = ''repository'' then Some [] else Some [])"
      by (elim exE conjE)
    from f have "changelog_field ext (fs' ''cog.toml'') k = Some (TStr [])" by simp
    with fm r show "changelog_field ext (files (snd (main ext w)) ''cog.toml'') k = Some (TStr [])"
      by simp
  qed
qed

text \<open>The file with only \<open>path\<close> and \<open>template\<close>, in an environment without forge variables.\<close>

theorem empty_string_is_written_witness:
  "(\<exists>fs'. setup_cog_config quiet_ext ''cog.toml'' (Some []) None None
             (example_fs (Some example_partial_config)) = (Inr True, fs')
          \<and> changelog_field quiet_ext (fs' ''cog.toml'') ''remote'' = Some (TStr []))
   \<and> (\<exists>c fs'. setup_cog_config quiet_ext ''cog.toml'' (Some []) None None
             (example_fs (Some example_partial_config)) = (Inr c, fs')
          \<and> changelog_field quiet_ext (fs' ''cog.toml'') ''repository'' = None)
   \<and> changelog_field quiet_ext
        (files (snd (main quiet_ext (example_world [] [] (Some example_partial_config))))
           ''cog.toml'') ''owner'' = Some (TStr [])"
proof -
  let ?fs = "example_fs (Some example_partial_config)"
  let ?w = "example_world [] [] (Some example_partial_config)"
  have rt: "\<And>d. toml_load quiet_ext (toml_dump quiet_ext d) = Some d"
    by (simp add: quiet_ext_def example_ext_def)
  have pl: "py_lower ''true'' = ''true''"
    by code_simp
  have a: "?fs ''cog.toml'' = Some example_partial_config
          \<and> toml_load quiet_ext example_partial_config = Some example_partial_config
          \<and> (map_of example_partial_config ''changelog'' = None
               \<or> (\<exists>kvs. map_of example_partial_config ''changelog'' = Some (TTable kvs)
                     \<and> map_of kvs ''remote'' = None))
          \<and> ''remote'' \<in> {''remote'', ''repository'', ''owner''}"
    by (simp add: example_fs_def quiet_ext_def example_ext_def example_partial_config_def)
  have b: "?fs ''cog.toml'' = Some example_partial_config
          \<and> toml_load quiet_ext example_partial_config = Some example_partial_config
          \<and> (map_of example_partial_config ''changelog'' = None
               \<or> (\<exists>kvs. map_of example_partial_config ''changelog'' = Some (TTable kvs)
                     \<and> map_of kvs ''repository'' = None))
          \<and> ''repository'' \<in> {''remote'', ''repository'', ''owner''}"
    by (simp add: example_fs_def quiet_ext_def example_ext_def example_partial_config_def)
  have c: "(user_input ?w ''remote'' = None \<or> user_input ?w ''remote'' = Some [])
          \<and> (user_input ?w ''owner'' = None \<or> user_input ?w ''owner'' = Some [])
          \<and> (user_input ?w ''repo'' = None \<or> user_input ?w ''repo'' = Some [])
          \<and> (environ ?w ''GITHUB_SERVER_URL'' = None \<or> environ ?w ''GITHUB_SERVER_URL'' = Some [])
          \<and> (environ ?w ''GITHUB_REPOSITORY_OWNER'' = None
               \<or> environ ?w ''GITHUB_REPOSITORY_OWNER'' = Some [])
          \<and> (environ ?w ''GITHUB_REPOSITORY'' = None \<or> environ ?w ''GITHUB_REPOSITORY'' = Some [])
          \<and> py_lower (py_or (user_input ?w ''update_cog_toml'') ''true'') = ''true''
          \<and> files ?w ''cog.toml'' = Some example_partial_config
          \<and> toml_load quiet_ext example_partial_config = Some example_partial_config
          \<and> (map_of example_partial_config ''changelog'' = None
               \<or> (\<exists>kvs. map_of example_partial_config ''changelog'' = Some (TTable kvs)
                     \<and> map_of kvs ''owner'' = None))
          \<and> ''owner'' \<in> {''remote'', ''repository'', ''owner''}"
    by (simp add: example_world_def quiet_ext_def example_ext_def example_partial_config_def
        py_or_def pl)
  note ta = empty_string_is_written[where ext=quiet_ext and fs="?fs" and path="''cog.toml''"
      and content=example_partial_config and config=example_partial_config
      and k="''remote''" and remote="Some []" and repository=None and owner=None and v="[]"
      and w="?w", OF rt]
  note tb = empty_string_is_written[where ext=quiet_ext and fs="?fs" and path="''cog.toml''"
      and content=example_partial_config and config=example_partial_config
      and k="''repository''" and remote="Some []" and repository=None and owner=None and v="[]"
      and w="?w", OF rt]
  note tc = empty_string_is_written[where ext=quiet_ext and fs="?fs" and path="''cog.toml''"
      and content=example_partial_config and config=example_partial_config
      and k="''owner''" and remote="Some []" and repository=None and owner=None and v="[]"
      and w="?w", OF rt]
  have ka: "(if ''remote'' = ''remote'' then Some [] else if ''remote'' = ''repository''
              then None else None) = Some ([] :: string)" by simp
  have kb: "(if ''repository'' = ''remote'' then Some [] else if ''repository'' = ''repository''
              then None else None) = (None :: string option)" by simp
  note ra = conjunct1[OF conjunct1[OF ta, THEN mp, OF a], THEN mp, OF ka]
  note rb = conjunct2[OF conjunct1[OF tb, THEN mp, OF b], THEN mp, OF kb]
  note rc = conjunct2[OF tc, THEN mp, OF c]
  show ?thesis
    by (rule conjI[OF ra conjI[OF rb rc]])
qed

section \<open>The release output\<close>

text \<open>
  Claim C2 says that, when a release is created, the output \<open>forgejo_release_output\<close> is
  the JSON encoding of the release record, a single JSON object.  In the run below every
  command prints \<open>1.0.0\<close>, a token and a server URL are set and the forge answers with a URL
  and the identifier 7, so a release is created.  \<open>create_forgejo_release\<close> returns the JSON
  text of the record and \<open>main\<close> applies \<open>json.dumps\<close> to that text once more: the output is
  the JSON encoding of a string, which starts with a quote and a brace followed by a
  backslash, and differs from the encoding of the record, which starts with a brace.
\<close>

theorem forgejo_release_output_double_encoded:
  "Set_output ''forgejo_release_output'' (json_dumps (JStr (json_dumps example_release_record)))
     \<in> set (trace (snd (main releasing_ext releasing_world)))
   \<and> json_dumps (JStr (json_dumps example_release_record)) \<noteq> json_dumps example_release_record
   \<and> take 2 (json_dumps example_release_record) = [CHR ''{'', CHR 0x22]
   \<and> take 3 (json_dumps (JStr (json_dumps example_release_record)))
       = [CHR 0x22, CHR ''{'', CHR 0x5C]"
proof -
  have tools: "\<And>n cwd argv. os_exec releasing_ext n cwd argv = Completed 0 example_stdout []"
    by (simp add: releasing_ext_def example_ext_def)
  have api: "\<And>n u t rq. forge_create_release releasing_ext n u t rq =
      Api_response (Some (JStr ''https://forge.example/acme/proj/releases/tag/1.0.0''))
                   (Some (JInt 7))"
    by (simp add: releasing_ext_def example_ext_def)
  have decode: "decode_text releasing_ext example_stdout = Some example_stdout"
    "decode_text releasing_ext [] = Some []"
    by (simp_all add: releasing_ext_def example_ext_def ascii_decode_def example_stdout_def)
  have coords: "fst (snd (fst (resolve_inputs releasing_world))) = (''forge.example'', ''acme'', ''proj'')"
    by code_simp
  have strip: "py_strip example_stdout = ''1.0.0''"
    by code_simp
  have v: "py_strip example_stdout \<noteq> []"
    unfolding strip by simp
  have noupdate: "py_lower (py_or (user_input releasing_world ''update_cog_toml'') ''true'') \<noteq> ''true''"
    by code_simp
  have flag: "py_lower (py_or (user_input releasing_world ''create-forgejo-release'') ''true'') = ''true''"
    by code_simp
  have env: "environ releasing_world ''FORGEJO_TOKEN'' = Some ''secret''" "''secret'' \<noteq> []"
    "environ releasing_world ''FORGEJO_SERVER_URL'' = None"
    "environ releasing_world ''GITHUB_SERVER_URL'' = Some ''https://forge.example''"
    "''https://forge.example'' \<noteq> []"
    by (simp_all add: releasing_world_def example_world_def)
  have emitted: "Set_output ''forgejo_release_output''
      (json_dumps (JStr (json_dumps example_release_record)))
     \<in> set (trace (snd (main releasing_ext releasing_world)))"
    using conjunct1[OF main_emits[where ext=releasing_ext and w=releasing_world,
          OF tools decode v noupdate flag env api coords]]
    unfolding strip example_release_record_def .
  have differ: "json_dumps (JStr (json_dumps example_release_record)) \<noteq> json_dumps example_release_record"
    by code_simp
  have obj: "take 2 (json_dumps example_release_record) = [CHR ''{'', CHR 0x22]"
    by code_simp
  have str: "take 3 (json_dumps (JStr (json_dumps example_release_record)))
       = [CHR 0x22, CHR ''{'', CHR 0x5C]"
    by code_simp
  show ?thesis
    by (rule conjI[OF emitted conjI[OF differ conjI[OF obj str]]])
qed

end
